theory Spec2Isabelle
  imports Main "HOL-Library.Sublist"
begin

section \<open>Values of the Python runtime\<close>

text \<open>
  The server receives JSON and hands the decoded values to \<open>int\<close>, \<open>str\<close>, \<open>dict.get\<close>
  and to truth tests. A decoded value is one of the shapes \<open>json.loads\<close> produces.
  A finite float is kept exactly as \<open>m * 2 ^ e\<close> (\<open>JFloat m e\<close>); \<open>NaN\<close> and the two
  infinities, which \<open>json.loads\<close> accepts, are separate. A \<open>dict\<close> is the association
  list of its items (one entry per key). A Python string is the list of its code points;
  the model covers the code points below 256.
\<close>

datatype json =
    JNull
  | JBool bool
  | JInt int
  | JFloat int int
  | JNaN
  | JInf bool
  | JStr string
  | JList "json list"
  | JObj "(string \<times> json) list"

datatype error =
    KeyError
  | TypeError
  | ValueError
  | AttributeError
  | OverflowError
  | IndexError
  | UnicodeEncodeError
  | LibraryError

text \<open>Truth value of an object, as \<open>if v\<close> and \<open>not v\<close> test it.\<close>

fun truthy :: "json \<Rightarrow> bool" where
  "truthy JNull = False"
| "truthy (JBool b) = b"
| "truthy (JInt n) = (n \<noteq> 0)"
| "truthy (JFloat m e) = (m \<noteq> 0)"
| "truthy JNaN = True"
| "truthy (JInf s) = True"
| "truthy (JStr s) = (s \<noteq> [])"
| "truthy (JList xs) = (xs \<noteq> [])"
| "truthy (JObj kvs) = (kvs \<noteq> [])"

text \<open>\<open>block['x']\<close>: only a dict can be subscripted with a string, and the key must be there.\<close>

fun subscript :: "json \<Rightarrow> string \<Rightarrow> error + json" where
  "subscript (JObj kvs) k = (case map_of kvs k of None \<Rightarrow> Inl KeyError | Some v \<Rightarrow> Inr v)"
| "subscript v k = Inl TypeError"

text \<open>\<open>block.get(key, default)\<close>: a method of dicts only.\<close>

fun dict_get :: "json \<Rightarrow> string \<Rightarrow> json \<Rightarrow> error + json" where
  "dict_get (JObj kvs) k d = Inr (case map_of kvs k of None \<Rightarrow> d | Some v \<Rightarrow> v)"
| "dict_get v k d = Inl AttributeError"

subsection \<open>\<open>int(...)\<close>\<close>

text \<open>
  The characters \<open>int\<close> skips around a number: the ASCII white space, and the two white
  space code points of the Latin-1 range (which CPython maps to a blank first).
\<close>

definition int_space :: "char \<Rightarrow> bool" where
  "int_space c = (c \<in> set [CHR '' '', CHR 0x09, CHR 0x0A, CHR 0x0B, CHR 0x0C, CHR 0x0D,
                            CHR 0x85, CHR 0xA0])"

definition digit_val :: "nat \<Rightarrow> char \<Rightarrow> nat option" where
  "digit_val base c =
     (let n = (of_char c :: nat);
          v = (if 48 \<le> n \<and> n \<le> 57 then n - 48
               else if 97 \<le> n \<and> n \<le> 122 then n - 87
               else if 65 \<le> n \<and> n \<le> 90 then n - 55
               else 37)
      in if v < base then Some v else None)"

text \<open>
  The digit scan: digits of the base, with single underscores between them. The flag
  says that the previous character was an underscore.
\<close>

fun scan_digits :: "nat \<Rightarrow> bool \<Rightarrow> nat \<Rightarrow> string \<Rightarrow> nat option" where
  "scan_digits base us acc [] = (if us then None else Some acc)"
| "scan_digits base us acc (c # cs) =
     (if c = CHR ''_'' then (if us then None else scan_digits base True acc cs)
      else (case digit_val base c of
              None \<Rightarrow> None
            | Some v \<Rightarrow> scan_digits base False (acc * base + v) cs))"

definition strip_with :: "(char \<Rightarrow> bool) \<Rightarrow> string \<Rightarrow> string" where
  "strip_with P s = rev (dropWhile P (rev (dropWhile P s)))"

definition drop_prefix16 :: "string \<Rightarrow> string" where
  "drop_prefix16 s =
     (case s of
        c0 # c1 # rest \<Rightarrow>
          if c0 = CHR ''0'' \<and> (c1 = CHR ''x'' \<or> c1 = CHR ''X'')
          then (case rest of u # rest' \<Rightarrow> if u = CHR ''_'' then rest' else rest | [] \<Rightarrow> rest)
          else s
      | _ \<Rightarrow> s)"

text \<open>
  \<open>int(s, base)\<close> for base 10 and 16: white space around, an optional sign, for base 16
  an optional \<open>0x\<close> (one underscore may follow it), then the digits, which may not begin
  with an underscore and may not be empty. (The limit of 4300 decimal digits of recent
  interpreters is not part of the model.)
\<close>

definition int_of_str :: "nat \<Rightarrow> string \<Rightarrow> error + int" where
  "int_of_str base s =
     (let t = strip_with int_space s;
          (neg, u) = (case t of
                        c # cs \<Rightarrow> if c = CHR ''+'' then (False, cs)
                                  else if c = CHR ''-'' then (True, cs)
                                  else (False, t)
                      | [] \<Rightarrow> (False, t));
          d = (if base = 16 then drop_prefix16 u else u)
      in case d of
           [] \<Rightarrow> Inl ValueError
         | c # cs \<Rightarrow>
             if c = CHR ''_'' then Inl ValueError
             else (case scan_digits base False 0 d of
                     None \<Rightarrow> Inl ValueError
                   | Some n \<Rightarrow> Inr (if neg then - int n else int n)))"

text \<open>\<open>int(v)\<close> on a decoded JSON value; a float is truncated towards zero.\<close>

fun py_int :: "json \<Rightarrow> error + int" where
  "py_int (JInt n) = Inr n"
| "py_int (JBool b) = Inr (if b then 1 else 0)"
| "py_int (JFloat m e) =
     Inr (if 0 \<le> e then m * 2 ^ nat e
          else if 0 \<le> m then m div 2 ^ nat (- e)
          else - ((- m) div 2 ^ nat (- e)))"
| "py_int JNaN = Inl ValueError"
| "py_int (JInf s) = Inl OverflowError"
| "py_int (JStr s) = int_of_str 10 s"
| "py_int JNull = Inl TypeError"
| "py_int (JList xs) = Inl TypeError"
| "py_int (JObj kvs) = Inl TypeError"

section \<open>Helper functions of the server\<close>

subsection \<open>\<open>hex_to_rgb\<close>\<close>

text \<open>
  \<open>hex_color.lstrip('#')\<close> removes every leading \<open>#\<close>; the three components are
  \<open>int(hex_color[i:i+2], 16)\<close> for \<open>i\<close> in \<open>(0, 2, 4)\<close>. A slice past the end is
  shorter or empty, and \<open>int\<close> raises on what is not a number.
\<close>

type_synonym rgb = "int \<times> int \<times> int"
type_synonym rgba = "int \<times> int \<times> int \<times> int"

definition slice2 :: "string \<Rightarrow> nat \<Rightarrow> string" where
  "slice2 s i = take 2 (drop i s)"

definition hex_to_rgb_str :: "string \<Rightarrow> error + rgb" where
  "hex_to_rgb_str hex_color =
     (let h = dropWhile (\<lambda>c. c = CHR ''#'') hex_color
      in case int_of_str 16 (slice2 h 0) of
           Inl e \<Rightarrow> Inl e
         | Inr r \<Rightarrow>
             (case int_of_str 16 (slice2 h 2) of
                Inl e \<Rightarrow> Inl e
              | Inr g \<Rightarrow>
                  (case int_of_str 16 (slice2 h 4) of
                     Inl e \<Rightarrow> Inl e
                   | Inr b \<Rightarrow> Inr (r, g, b))))"

text \<open>The argument comes from the request: only a string has \<open>lstrip\<close>.\<close>

fun hex_to_rgb :: "json \<Rightarrow> error + rgb" where
  "hex_to_rgb (JStr s) = hex_to_rgb_str s"
| "hex_to_rgb v = Inl AttributeError"

text \<open>\<open>rgb + (255,)\<close>\<close>

definition opaque :: "rgb \<Rightarrow> rgba" where
  "opaque c = (case c of (r, g, b) \<Rightarrow> (r, g, b, 255))"

subsection \<open>The world outside the program\<close>

text \<open>
  A font object is either a TrueType font loaded from a file at a size, or Pillow's
  built-in default font.
\<close>

datatype font = TrueType string int | DefaultFont

text \<open>The calls made on the drawing surface of the overlay, with their arguments.\<close>

datatype draw_cmd =
    Rectangle int int int int rgba
  | DrawText int int string rgba font
  | Line int int int int rgba nat

text \<open>
  Images are kept as the expression of library calls that produced them: a decoded file
  (path, mode, size), a mode conversion, the contrast enhancement by 1.5, the overlay
  \<open>Image.new('RGBA', size, (255, 255, 255, 0))\<close> with the draw calls applied to it in
  order, and \<open>Image.alpha_composite\<close>.
\<close>

datatype image =
    Decoded string string "nat \<times> nat"
  | Convert string image
  | Contrast15 image
  | Canvas "nat \<times> nat" "draw_cmd list"
  | AlphaComposite image image

fun mode :: "image \<Rightarrow> string" where
  "mode (Decoded p m s) = m"
| "mode (Convert m i) = m"
| "mode (Contrast15 i) = mode i"
| "mode (Canvas s cs) = ''RGBA''"
| "mode (AlphaComposite a b) = ''RGBA''"

fun size_of :: "image \<Rightarrow> nat \<times> nat" where
  "size_of (Decoded p m s) = s"
| "size_of (Convert m i) = size_of i"
| "size_of (Contrast15 i) = size_of i"
| "size_of (Canvas s cs) = s"
| "size_of (AlphaComposite a b) = size_of a"

text \<open>
  The table pytesseract returns with \<open>Output.DICT\<close>: one list per column, the text
  column holding strings and the others the integers pytesseract parsed. (For a result
  without rows pytesseract returns a dict without columns, on which the handler raises;
  the model counts that case with the failures of the engine.)
\<close>

record ocr_data =
  level :: "int list"
  text_col :: "string list"
  left_col :: "int list"
  top_col :: "int list"
  width_col :: "int list"
  height_col :: "int list"
  conf_col :: "int list"

text \<open>
  What the program asks of the file system and of the libraries. A library call that can
  raise yields a Boolean (accepted or not) or an option.
  \<^item> \<open>path_exists\<close>: \<open>os.path.exists\<close> on a string (it never raises on one);
  \<^item> \<open>fd_exists\<close>: \<open>os.path.exists\<close> on an integer, which names a file descriptor;
  \<^item> \<open>truetype_loads\<close>: whether \<open>ImageFont.truetype(path, size)\<close> returns;
  \<^item> \<open>open_image\<close>: \<open>Image.open\<close>, the mode and size of the decoded file;
  \<^item> \<open>draw_accepts\<close>: whether a call on the drawing surface returns;
  \<^item> \<open>textbbox\<close>: \<open>draw.textbbox((x, y), text, font=font)\<close>;
  \<^item> \<open>save_accepts\<close>: whether \<open>image.save(path, quality=95)\<close> returns;
  \<^item> \<open>png_base64\<close>: the base64 text of the PNG encoding of an image;
  \<^item> \<open>secure_filename\<close>: werkzeug's sanitiser;
  \<^item> \<open>py_repr\<close>: \<open>str(v)\<close> of a value that is not a string;
  \<^item> \<open>upload_saves\<close>: whether \<open>file.save(path)\<close> returns;
  \<^item> \<open>image_to_data\<close>: the OCR engine's table for an image;
  \<^item> \<open>send_file_ok\<close>: whether \<open>send_file(path, ...)\<close> returns;
  \<^item> \<open>console_accepts\<close>: whether \<open>print\<close> returns for a message that carries this
    text of the request (lines 146 and 392).

  A \<open>print\<close> raises \<open>UnicodeEncodeError\<close> when the console cannot encode its message. On
  a UTF-8 console that is the case for a text with a lone surrogate, which \<open>json.loads\<close>
  yields for the escape of the code point D800. The strings of the model hold no such
  code point, so the console's refusal of a text is a fact of the environment. The other
  messages of the handlers carry no text of the request (the text of an exception escapes
  such characters) and are taken to print.
\<close>

record env =
  path_exists :: "string \<Rightarrow> bool"
  fd_exists :: "int \<Rightarrow> bool"
  truetype_loads :: "string \<Rightarrow> int \<Rightarrow> bool"
  open_image :: "string \<Rightarrow> (string \<times> (nat \<times> nat)) option"
  draw_accepts :: "draw_cmd \<Rightarrow> bool"
  textbbox :: "int \<Rightarrow> int \<Rightarrow> string \<Rightarrow> font \<Rightarrow> (int \<times> int \<times> int \<times> int) option"
  save_accepts :: "string \<Rightarrow> image \<Rightarrow> bool"
  png_base64 :: "image \<Rightarrow> string"
  secure_filename :: "string \<Rightarrow> string"
  py_repr :: "json \<Rightarrow> string"
  upload_saves :: "string \<Rightarrow> bool"
  image_to_data :: "image \<Rightarrow> ocr_data option"
  send_file_ok :: "string \<Rightarrow> bool"
  console_accepts :: "string \<Rightarrow> bool"

text \<open>\<open>str(v)\<close>: a string is itself; the text of any other value is the library's.\<close>

definition py_str :: "env \<Rightarrow> json \<Rightarrow> string" where
  "py_str ev v = (case v of JStr s \<Rightarrow> s | _ \<Rightarrow> py_repr ev v)"

subsection \<open>\<open>get_font\<close>\<close>

text \<open>
  The two tables, built on each call from the flags: an entry is \<open>None\<close> where the
  source writes \<open>... if bold else None\<close>.
\<close>

definition linux_fonts :: "bool \<Rightarrow> bool \<Rightarrow> (string \<times> string option list) list" where
  "linux_fonts bold italic =
     [(''Arial'',
        [Some ''/usr/share/fonts/truetype/liberation/LiberationSans-Regular.ttf'',
         if bold then Some ''/usr/share/fonts/truetype/liberation/LiberationSans-Bold.ttf''
         else None,
         if italic then Some ''/usr/share/fonts/truetype/liberation/LiberationSans-Italic.ttf''
         else None]),
      (''Times New Roman'',
        [Some ''/usr/share/fonts/truetype/liberation/LiberationSerif-Regular.ttf'',
         if bold then Some ''/usr/share/fonts/truetype/liberation/LiberationSerif-Bold.ttf''
         else None]),
      (''Courier New'',
        [Some ''/usr/share/fonts/truetype/liberation/LiberationMono-Regular.ttf'',
         if bold then Some ''/usr/share/fonts/truetype/liberation/LiberationMono-Bold.ttf''
         else None])]"

definition windows_fonts :: "bool \<Rightarrow> bool \<Rightarrow> (string \<times> string option list) list" where
  "windows_fonts bold italic =
     [(''Arial'',
        [Some ''C:/Windows/Fonts/arial.ttf'',
         if bold then Some ''C:/Windows/Fonts/arialbd.ttf'' else None,
         if italic then Some ''C:/Windows/Fonts/ariali.ttf'' else None]),
      (''Times New Roman'',
        [Some ''C:/Windows/Fonts/times.ttf'',
         if bold then Some ''C:/Windows/Fonts/timesbd.ttf'' else None,
         if italic then Some ''C:/Windows/Fonts/timesi.ttf'' else None]),
      (''Courier New'',
        [Some ''C:/Windows/Fonts/cour.ttf'',
         if bold then Some ''C:/Windows/Fonts/courbd.ttf'' else None]),
      (''Comic Sans MS'', [Some ''C:/Windows/Fonts/comic.ttf'']),
      (''Verdana'', [Some ''C:/Windows/Fonts/verdana.ttf'']),
      (''Georgia'', [Some ''C:/Windows/Fonts/georgia.ttf''])]"

text \<open>
  \<open>table.get(font_family, table.get('Arial', []))\<close>. The key is a value of the request:
  a list or a dict is unhashable and makes \<open>get\<close> raise; any other value that is not a
  string equals no key of the table.
\<close>

definition table_get ::
  "(string \<times> string option list) list \<Rightarrow> string option \<Rightarrow> string option list" where
  "table_get table key =
     (let dflt = (case map_of table ''Arial'' of None \<Rightarrow> [] | Some ps \<Rightarrow> ps)
      in case key of
           None \<Rightarrow> dflt
         | Some k \<Rightarrow> (case map_of table k of None \<Rightarrow> dflt | Some ps \<Rightarrow> ps))"

fun hash_key :: "json \<Rightarrow> error + string option" where
  "hash_key (JStr s) = Inr (Some s)"
| "hash_key (JList xs) = Inl TypeError"
| "hash_key (JObj kvs) = Inl TypeError"
| "hash_key v = Inr None"

text \<open>
  One of the two loops: \<open>if path and os.path.exists(path)\<close>, then
  \<open>try: return ImageFont.truetype(path, font_size) except: continue\<close>.
\<close>

fun try_fonts :: "env \<Rightarrow> int \<Rightarrow> string option list \<Rightarrow> font option" where
  "try_fonts ev sz [] = None"
| "try_fonts ev sz (p # ps) =
     (case p of
        None \<Rightarrow> try_fonts ev sz ps
      | Some path \<Rightarrow>
          if path \<noteq> [] \<and> path_exists ev path
          then (if truetype_loads ev path sz then Some (TrueType path sz)
                else try_fonts ev sz ps)
          else try_fonts ev sz ps)"

text \<open>
  The function. When neither loop returns, line 146 prints a message that holds the
  family, outside every handler, before the default font is returned: when that \<open>print\<close>
  raises, so does \<open>get_font\<close>.
\<close>

definition get_font :: "env \<Rightarrow> json \<Rightarrow> int \<Rightarrow> json \<Rightarrow> json \<Rightarrow> error + font" where
  "get_font ev font_family font_size bold italic =
     (case hash_key font_family of
        Inl e \<Rightarrow> Inl e
      | Inr key \<Rightarrow>
          (case try_fonts ev font_size
                  (table_get (linux_fonts (truthy bold) (truthy italic)) key) of
             Some f \<Rightarrow> Inr f
           | None \<Rightarrow>
               (case try_fonts ev font_size
                       (table_get (windows_fonts (truthy bold) (truthy italic)) key) of
                  Some f \<Rightarrow> Inr f
                | None \<Rightarrow>
                    if console_accepts ev (py_str ev font_family) then Inr DefaultFont
                    else Inl UnicodeEncodeError)))"

text \<open>
  The resolution as the specification words it: the candidate paths of a family in a
  table are the paths listed for it, or those listed for Arial when the table does not
  know the family; the Linux candidates come before the Windows candidates; the result is
  the first candidate that exists and loads, or the default font when there is none.
\<close>

definition candidates :: "(string \<times> string option list) list \<Rightarrow> string \<Rightarrow> string list" where
  "candidates table family =
     concat (map (\<lambda>p. case p of None \<Rightarrow> [] | Some path \<Rightarrow> [path])
       (the (map_of table (if family \<in> set (map fst table) then family else ''Arial''))))"

definition resolve_font :: "env \<Rightarrow> string \<Rightarrow> int \<Rightarrow> bool \<Rightarrow> bool \<Rightarrow> font" where
  "resolve_font ev family sz bold italic =
     (case find (\<lambda>path. path_exists ev path \<and> truetype_loads ev path sz)
             (candidates (linux_fonts bold italic) family @
              candidates (windows_fonts bold italic) family) of
        Some path \<Rightarrow> TrueType path sz
      | None \<Rightarrow> DefaultFont)"

section \<open>Paths\<close>

text \<open>
  \<open>os.path.basename\<close> and \<open>os.path.join\<close> of two parts, as \<open>posixpath\<close> defines them:
  the base name is what follows the last slash; a second part that begins with a slash
  replaces the first.
\<close>

definition UPLOAD_FOLDER :: string where
  "UPLOAD_FOLDER = ''uploads''"

definition basename :: "string \<Rightarrow> string" where
  "basename p = rev (takeWhile (\<lambda>c. c \<noteq> CHR ''/'') (rev p))"

definition path_join :: "string \<Rightarrow> string \<Rightarrow> string" where
  "path_join a b =
     (if b \<noteq> [] \<and> hd b = CHR ''/'' then b
      else if a = [] \<or> last a = CHR ''/'' then a @ b
      else a @ ''/'' @ b)"

section \<open>Responses and effects\<close>

text \<open>One record of the list \<open>extract_text\<close> returns.\<close>

record text_block =
  tb_text :: string
  tb_x :: int
  tb_y :: int
  tb_width :: int
  tb_height :: int
  tb_confidence :: int
  tb_fontSize :: int
  tb_fontFamily :: string
  tb_bold :: bool
  tb_italic :: bool
  tb_underline :: bool
  tb_textColor :: string
  tb_backgroundColor :: string
  tb_backgroundTransparent :: bool

text \<open>
  The body of a response: an \<open>error\<close> message of the handler's own, the message of a
  caught exception, the result of an edit (\<open>edited_image\<close>, \<open>filename\<close>), the result of
  an extraction (\<open>text_blocks\<close>, \<open>full_text\<close>, \<open>image_base64\<close>, \<open>image_path\<close>), or a file
  sent as an attachment (path, download name).
\<close>

datatype body =
    ErrorMessage string
  | Raised error
  | Edited string string
  | Extracted "text_block list" string string string
  | Attachment string string

datatype response = Response nat body

text \<open>What a handler did to the file system, in order.\<close>

datatype event =
    Uploaded string
  | Opened string
  | Saved string image

section \<open>\<open>update_image\<close>\<close>

definition and_then :: "error + 'a \<Rightarrow> ('a \<Rightarrow> error + 'b) \<Rightarrow> error + 'b" where
  "and_then m f = (case m of Inl e \<Rightarrow> Inl e | Inr v \<Rightarrow> f v)"

text \<open>The local variables of one iteration, once lines 342 to 356 have run.\<close>

record block_args =
  a_x :: int
  a_y :: int
  a_w :: int
  a_h :: int
  a_text :: string
  a_font_size :: int
  a_font_family :: json
  a_bold :: json
  a_italic :: json
  a_underline :: json
  a_text_color :: json
  a_bg_color :: json
  a_bg_transparent :: json

definition read_block :: "env \<Rightarrow> json \<Rightarrow> error + block_args" where
  "read_block ev block =
     and_then (and_then (subscript block ''x'') py_int) (\<lambda>x.
     and_then (and_then (subscript block ''y'') py_int) (\<lambda>y.
     and_then (and_then (subscript block ''width'') py_int) (\<lambda>w.
     and_then (and_then (subscript block ''height'') py_int) (\<lambda>h.
     and_then (subscript block ''text'') (\<lambda>t.
     and_then (and_then (dict_get block ''fontSize'' (JInt 20)) py_int) (\<lambda>fs.
     and_then (dict_get block ''fontFamily'' (JStr ''Arial'')) (\<lambda>ff.
     and_then (dict_get block ''bold'' (JBool False)) (\<lambda>bo.
     and_then (dict_get block ''italic'' (JBool False)) (\<lambda>it.
     and_then (dict_get block ''underline'' (JBool False)) (\<lambda>un.
     and_then (dict_get block ''textColor'' (JStr ''#000000'')) (\<lambda>tc.
     and_then (dict_get block ''backgroundColor'' (JStr ''#FFFFFF'')) (\<lambda>bc.
     and_then (dict_get block ''backgroundTransparent'' (JBool True)) (\<lambda>bt.
       Inr \<lparr>a_x = x, a_y = y, a_w = w, a_h = h, a_text = py_str ev t,
            a_font_size = fs, a_font_family = ff, a_bold = bo, a_italic = it,
            a_underline = un, a_text_color = tc, a_bg_color = bc,
            a_bg_transparent = bt\<rparr>)))))))))))))"

text \<open>
  A call on the drawing surface: it either raises and leaves the overlay as it was, or
  is applied after the calls made so far.
\<close>

definition draw :: "env \<Rightarrow> draw_cmd list \<Rightarrow> draw_cmd \<Rightarrow> error + draw_cmd list" where
  "draw ev ov c = (if draw_accepts ev c then Inr (ov @ [c]) else Inl LibraryError)"

text \<open>The covering rectangle of a block: \<open>[x-2, y-2, x+w+2, y+h+2]\<close> with a fill.\<close>

definition cover :: "block_args \<Rightarrow> rgba \<Rightarrow> draw_cmd" where
  "cover a fill = Rectangle (a_x a - 2) (a_y a - 2) (a_x a + a_w a + 2) (a_y a + a_h a + 2) fill"

definition draw_background :: "env \<Rightarrow> draw_cmd list \<Rightarrow> block_args \<Rightarrow> error + draw_cmd list" where
  "draw_background ev ov a =
     (if \<not> truthy (a_bg_transparent a)
      then and_then (hex_to_rgb (a_bg_color a)) (\<lambda>bg_rgb. draw ev ov (cover a (opaque bg_rgb)))
      else draw ev ov (cover a (255, 255, 255, 200)))"

text \<open>
  The underline has a handler of its own (\<open>except: pass\<close>): whatever fails in it, the
  overlay stays as it was and the block goes on.
\<close>

definition draw_underline ::
  "env \<Rightarrow> draw_cmd list \<Rightarrow> block_args \<Rightarrow> rgb \<Rightarrow> font \<Rightarrow> draw_cmd list" where
  "draw_underline ev ov a text_rgb fnt =
     (if truthy (a_underline a)
      then (case textbbox ev (a_x a) (a_y a) (a_text a) fnt of
              None \<Rightarrow> ov
            | Some (bl, bt, br, bb) \<Rightarrow>
                (let underline_y = bb + 1
                 in case draw ev ov (Line (a_x a) underline_y br underline_y (opaque text_rgb) 2) of
                      Inl e \<Rightarrow> ov
                    | Inr ov' \<Rightarrow> ov'))
      else ov)"

text \<open>
  The steps of an iteration that read and draw (lines 342 to 390). The result is the
  overlay as they leave it and the exception they raised, if any: what was drawn before
  the exception stays.
\<close>

definition process_block :: "env \<Rightarrow> draw_cmd list \<Rightarrow> json \<Rightarrow> draw_cmd list \<times> error option" where
  "process_block ev ov block =
     (case read_block ev block of
        Inl e \<Rightarrow> (ov, Some e)
      | Inr a \<Rightarrow>
          (case get_font ev (a_font_family a) (a_font_size a) (a_bold a) (a_italic a) of
             Inl e \<Rightarrow> (ov, Some e)
           | Inr fnt \<Rightarrow>
               (case draw_background ev ov a of
                  Inl e \<Rightarrow> (ov, Some e)
                | Inr ov1 \<Rightarrow>
                    (case hex_to_rgb (a_text_color a) of
                       Inl e \<Rightarrow> (ov1, Some e)
                     | Inr text_rgb \<Rightarrow>
                         (case draw ev ov1
                                 (DrawText (a_x a) (a_y a) (a_text a) (opaque text_rgb) fnt) of
                            Inl e \<Rightarrow> (ov1, Some e)
                          | Inr ov2 \<Rightarrow> (draw_underline ev ov2 a text_rgb fnt, None))))))"

text \<open>
  The whole iteration: after the steps above, line 392 prints the first 30 characters of
  the text read at line 346, still under the handler of the block. An exception of the
  steps, or else of that \<open>print\<close>, is what the handler catches and line 395 prints.
\<close>

definition run_block :: "env \<Rightarrow> draw_cmd list \<Rightarrow> json \<Rightarrow> draw_cmd list \<times> error option" where
  "run_block ev ov block =
     (case process_block ev ov block of
        (ov', Some e) \<Rightarrow> (ov', Some e)
      | (ov', None) \<Rightarrow>
          (case read_block ev block of
             Inl e \<Rightarrow> (ov', None)
           | Inr a \<Rightarrow>
               (ov', if console_accepts ev (take 30 (a_text a)) then None
                     else Some UnicodeEncodeError)))"

text \<open>
  The loop over \<open>enumerate(text_blocks)\<close>. The log holds, per block, the number printed
  for it (\<open>idx + 1\<close>) and the exception printed, if any.
\<close>

fun process_blocks ::
  "env \<Rightarrow> nat \<Rightarrow> json list \<Rightarrow> draw_cmd list \<Rightarrow> (nat \<times> error option) list
   \<Rightarrow> draw_cmd list \<times> (nat \<times> error option) list" where
  "process_blocks ev idx [] ov lg = (ov, lg)"
| "process_blocks ev idx (block # blocks) ov lg =
     (case run_block ev ov block of
        (ov', r) \<Rightarrow> process_blocks ev (Suc idx) blocks ov' (lg @ [(idx + 1, r)]))"

text \<open>
  \<open>os.path.exists(image_path)\<close> on a value of the request: a string is a path, an
  integer (or \<open>True\<close>) a file descriptor, which must fit a C \<open>int\<close>; any other value
  makes \<open>os.stat\<close> raise a \<open>TypeError\<close>, which \<open>exists\<close> does not catch.
\<close>

fun os_path_exists :: "env \<Rightarrow> json \<Rightarrow> error + bool" where
  "os_path_exists ev (JStr p) = Inr (path_exists ev p)"
| "os_path_exists ev (JInt n) =
     (if - (2 ^ 31) \<le> n \<and> n < 2 ^ 31 then Inr (fd_exists ev n) else Inl OverflowError)"
| "os_path_exists ev (JBool b) = Inr (fd_exists ev (if b then 1 else 0))"
| "os_path_exists ev v = Inl TypeError"

text \<open>\<open>Image.open(image_path)\<close>: of the values of a request only a string is a path.\<close>

fun image_open :: "env \<Rightarrow> json \<Rightarrow> error + (string \<times> image)" where
  "image_open ev (JStr p) =
     (case open_image ev p of
        None \<Rightarrow> Inl LibraryError
      | Some (m, s) \<Rightarrow> Inr (p, Decoded p m s))"
| "image_open ev v = Inl AttributeError"

text \<open>
  \<open>len(text_blocks)\<close> and \<open>enumerate(text_blocks)\<close>: a list gives its items, a string
  its characters, a dict its keys; the other values have no length.
\<close>

fun py_iter :: "json \<Rightarrow> error + json list" where
  "py_iter (JList xs) = Inr xs"
| "py_iter (JStr s) = Inr (map (\<lambda>c. JStr [c]) s)"
| "py_iter (JObj kvs) = Inr (map (\<lambda>kv. JStr (fst kv)) kvs)"
| "py_iter v = Inl TypeError"

text \<open>Lines 397 to 403: the composed image, the name and the path of the output.\<close>

definition compose :: "image \<Rightarrow> draw_cmd list \<Rightarrow> image" where
  "compose img ov = Convert ''RGB'' (AlphaComposite img (Canvas (size_of img) ov))"

definition output_name :: "env \<Rightarrow> string \<Rightarrow> string" where
  "output_name ev image_path = ''edited_'' @ secure_filename ev (basename image_path)"

text \<open>
  The handler. The argument is \<open>request.json\<close>, \<open>None\<close> when reading it raises (no JSON
  body). Every exception that leaves the inner steps is caught at the end and answered
  with status 500.
\<close>

definition update_image :: "env \<Rightarrow> json option \<Rightarrow> response \<times> event list" where
  "update_image ev request_json =
     (case request_json of
        None \<Rightarrow> (Response 500 (Raised LibraryError), [])
      | Some data \<Rightarrow>
          (case and_then (dict_get data ''image_path'' JNull) (\<lambda>ip.
                and_then (dict_get data ''text_blocks'' JNull) (\<lambda>tb. Inr (ip, tb))) of
             Inl e \<Rightarrow> (Response 500 (Raised e), [])
           | Inr (image_path, text_blocks) \<Rightarrow>
               if \<not> truthy image_path \<or> \<not> truthy text_blocks
               then (Response 400 (ErrorMessage ''Missing required data''), [])
               else
                 (case os_path_exists ev image_path of
                    Inl e \<Rightarrow> (Response 500 (Raised e), [])
                  | Inr False \<Rightarrow> (Response 404 (ErrorMessage ''Original image not found''), [])
                  | Inr True \<Rightarrow>
                      (case image_open ev image_path of
                         Inl e \<Rightarrow> (Response 500 (Raised e), [])
                       | Inr (p, img0) \<Rightarrow>
                           (let img = (if mode img0 \<noteq> ''RGBA'' then Convert ''RGBA'' img0
                                       else img0)
                            in case py_iter text_blocks of
                                 Inl e \<Rightarrow> (Response 500 (Raised e), [Opened p])
                               | Inr blocks \<Rightarrow>
                                   (let ov = fst (process_blocks ev 0 blocks [] []);
                                        out = compose img ov;
                                        output_filename = output_name ev p;
                                        output_path = path_join UPLOAD_FOLDER output_filename
                                    in if save_accepts ev output_path out
                                       then (Response 200
                                               (Edited (''data:image/png;base64,'' @
                                                        png_base64 ev out) output_filename),
                                             [Opened p, Saved output_path out])
                                       else (Response 500 (Raised LibraryError),
                                             [Opened p])))))))"

section \<open>\<open>extract_text\<close>\<close>

text \<open>
  The white space \<open>str.strip()\<close> removes, among the code points below 256.
\<close>

definition py_space :: "char \<Rightarrow> bool" where
  "py_space c =
     (let n = (of_char c :: nat)
      in (9 \<le> n \<and> n \<le> 13) \<or> (28 \<le> n \<and> n \<le> 32) \<or> n = 133 \<or> n = 160)"

definition strip :: "string \<Rightarrow> string" where
  "strip s = strip_with py_space s"

text \<open>\<open>xs[i]\<close> for an index that is not negative.\<close>

definition item :: "'a list \<Rightarrow> nat \<Rightarrow> error + 'a" where
  "item xs i = (if i < length xs then Inr (xs ! i) else Inl IndexError)"

text \<open>
  The body of the loop of lines 266 to 286 for the row \<open>i\<close>: the rows whose text is empty
  or blank add nothing; the others add a block with the default styling. The columns are
  read in the order of the source, and a column that is too short raises. The numeric
  columns hold integers, on which \<open>int\<close> and \<open>float\<close> keep the value.
\<close>

definition extract_row :: "ocr_data \<Rightarrow> nat \<Rightarrow> error + text_block list" where
  "extract_row data i =
     and_then (item (text_col data) i) (\<lambda>text.
       if text \<noteq> [] \<and> strip text \<noteq> []
       then
         and_then (item (left_col data) i) (\<lambda>l.
         and_then (item (top_col data) i) (\<lambda>t.
         and_then (item (width_col data) i) (\<lambda>w.
         and_then (item (height_col data) i) (\<lambda>h.
         and_then (item (conf_col data) i) (\<lambda>c.
           Inr [\<lparr>tb_text = strip text, tb_x = l, tb_y = t, tb_width = w, tb_height = h,
                 tb_confidence = c, tb_fontSize = 20, tb_fontFamily = ''Arial'',
                 tb_bold = False, tb_italic = False, tb_underline = False,
                 tb_textColor = ''#000000'', tb_backgroundColor = ''#FFFFFF'',
                 tb_backgroundTransparent = True\<rparr>])))))
       else Inr [])"

fun extract_rows :: "ocr_data \<Rightarrow> nat list \<Rightarrow> text_block list \<Rightarrow> error + text_block list" where
  "extract_rows data [] text_blocks = Inr text_blocks"
| "extract_rows data (i # rest) text_blocks =
     (case extract_row data i of
        Inl e \<Rightarrow> Inl e
      | Inr bs \<Rightarrow> extract_rows data rest (text_blocks @ bs))"

definition extract_blocks :: "ocr_data \<Rightarrow> error + text_block list" where
  "extract_blocks data = extract_rows data [0 ..< length (level data)] []"

text \<open>\<open>' '.join(...)\<close>\<close>

fun join_space :: "string list \<Rightarrow> string" where
  "join_space [] = []"
| "join_space [s] = s"
| "join_space (s # t # rest) = s @ '' '' @ join_space (t # rest)"

text \<open>
  The handler. \<open>available\<close> is the global \<open>tesseract_available\<close>; \<open>upload\<close> is the file
  name of the form field \<open>image\<close>, \<open>None\<close> when the request has no such field.
\<close>

definition extract_text :: "env \<Rightarrow> bool \<Rightarrow> string option \<Rightarrow> response \<times> event list" where
  "extract_text ev available upload =
     (if \<not> available
      then (Response 500 (ErrorMessage ''Tesseract OCR is not configured properly''), [])
      else
        (case upload of
           None \<Rightarrow> (Response 400 (ErrorMessage ''No image uploaded''), [])
         | Some file_name \<Rightarrow>
             if file_name = [] then (Response 400 (ErrorMessage ''No file selected''), [])
             else
               (let filename = secure_filename ev file_name;
                    image_path = path_join UPLOAD_FOLDER filename
                in if \<not> upload_saves ev image_path
                   then (Response 500 (Raised LibraryError), [])
                   else
                     (case open_image ev image_path of
                        None \<Rightarrow> (Response 500 (Raised LibraryError), [Uploaded image_path])
                      | Some (m, s) \<Rightarrow>
                          (let img0 = Decoded image_path m s;
                               img = (if m \<noteq> ''RGB'' \<and> m \<noteq> ''L'' then Convert ''RGB'' img0
                                      else img0);
                               image_gray = Convert ''L'' (Contrast15 img)
                           in case image_to_data ev image_gray of
                                None \<Rightarrow> (Response 500 (Raised LibraryError),
                                          [Uploaded image_path, Opened image_path])
                              | Some data \<Rightarrow>
                                  (case extract_blocks data of
                                     Inl e \<Rightarrow> (Response 500 (Raised e),
                                               [Uploaded image_path, Opened image_path])
                                   | Inr text_blocks \<Rightarrow>
                                       (Response 200
                                          (Extracted text_blocks
                                             (join_space (map tb_text text_blocks))
                                             (''data:image/png;base64,'' @ png_base64 ev img0)
                                             image_path),
                                        [Uploaded image_path, Opened image_path,
                                         Opened image_path])))))))"

section \<open>\<open>download_file\<close>\<close>

definition download_file :: "env \<Rightarrow> string \<Rightarrow> response" where
  "download_file ev filename0 =
     (let filename = secure_filename ev filename0;
          file_path = path_join UPLOAD_FOLDER filename
      in if path_exists ev file_path
         then (if send_file_ok ev file_path then Response 200 (Attachment file_path filename)
               else Response 500 (Raised LibraryError))
         else Response 404 (ErrorMessage ''File not found''))"

text \<open>The path the handler looks up and serves.\<close>

definition served_path :: "env \<Rightarrow> string \<Rightarrow> string" where
  "served_path ev filename0 = path_join UPLOAD_FOLDER (secure_filename ev filename0)"

section \<open>A concrete environment\<close>

text \<open>
  What werkzeug's \<open>secure_filename\<close> computes on an ASCII name under POSIX: slashes become
  blanks, the words are joined by underscores, every character other than a letter, a
  digit, \<open>_\<close>, \<open>.\<close> and \<open>-\<close> is removed, and dots and underscores are stripped from both
  ends. The library is not part of the repository: the handlers take the sanitiser from
  the environment, and this function is the one of the example environment.
\<close>

definition safe_char :: "char \<Rightarrow> bool" where
  "safe_char c =
     (let n = (of_char c :: nat)
      in (48 \<le> n \<and> n \<le> 57) \<or> (65 \<le> n \<and> n \<le> 90) \<or> (97 \<le> n \<and> n \<le> 122)
         \<or> c = CHR ''_'' \<or> c = CHR ''.'' \<or> c = CHR ''-'')"

fun words_of :: "string \<Rightarrow> string \<Rightarrow> string list" where
  "words_of cur [] = (if cur = [] then [] else [cur])"
| "words_of cur (c # cs) =
     (if py_space c \<or> c = CHR ''/''
      then (if cur = [] then words_of [] cs else cur # words_of [] cs)
      else words_of (cur @ [c]) cs)"

fun join_underscore :: "string list \<Rightarrow> string" where
  "join_underscore [] = []"
| "join_underscore [s] = s"
| "join_underscore (s # t # rest) = s @ ''_'' @ join_underscore (t # rest)"

definition secure_filename_ascii :: "string \<Rightarrow> string" where
  "secure_filename_ascii s =
     strip_with (\<lambda>c. c = CHR ''.'' \<or> c = CHR ''_'')
       (filter safe_char (join_underscore (words_of [] s)))"

text \<open>
  An environment for the examples: the upload folder holds \<open>photo.png\<close>, a 100 by 50
  RGB image; the only font file installed is the bold Liberation Sans; the drawing
  surface accepts every call on rectangles with ordered corners, every text and every
  line; the measured box of a text is 7 pixels per character wide and 12 high; files are
  saved under the extensions \<open>.png\<close> and \<open>.jpg\<close>; the OCR engine reports a page row
  without text, a blank row and the word \<open>Hello\<close>; the console prints every text.
\<close>

definition demo_table :: ocr_data where
  "demo_table =
     \<lparr>level = [1, 5, 5],
      text_col = [[], ''  '', '' Hello''],
      left_col = [0, 3, 12],
      top_col = [0, 4, 9],
      width_col = [100, 2, 41],
      height_col = [50, 2, 14],
      conf_col = [-1, 95, 96]\<rparr>"

definition has_suffix :: "string \<Rightarrow> string \<Rightarrow> bool" where
  "has_suffix suf s = (length suf \<le> length s \<and> drop (length s - length suf) s = suf)"

fun demo_draw_accepts :: "draw_cmd \<Rightarrow> bool" where
  "demo_draw_accepts (Rectangle x0 y0 x1 y1 fill) = (x0 \<le> x1 \<and> y0 \<le> y1)"
| "demo_draw_accepts c = True"

definition demo_env :: env where
  "demo_env =
     \<lparr>path_exists = (\<lambda>p. p = ''uploads/photo.png'' \<or>
        p = ''/usr/share/fonts/truetype/liberation/LiberationSans-Bold.ttf''),
      fd_exists = (\<lambda>n. n = 0 \<or> n = 1 \<or> n = 2),
      truetype_loads = (\<lambda>p sz. 0 < sz),
      open_image = (\<lambda>p. if p = ''uploads/photo.png'' then Some (''RGB'', (100, 50)) else None),
      draw_accepts = demo_draw_accepts,
      textbbox = (\<lambda>x y t f. Some (x, y, x + 7 * int (length t), y + 12)),
      save_accepts = (\<lambda>p i. has_suffix ''.png'' p \<or> has_suffix ''.jpg'' p),
      png_base64 = (\<lambda>i. ''iVBORw0KGgo=''),
      secure_filename = secure_filename_ascii,
      py_repr = (\<lambda>v. ''?''),
      upload_saves = (\<lambda>p. True),
      image_to_data = (\<lambda>i. Some demo_table),
      send_file_ok = (\<lambda>p. True),
      console_accepts = (\<lambda>t. True)\<rparr>"

text \<open>Three blocks of a request: one well formed and underlined, one whose \<open>x\<close> is not
  a number, and one whose background colour parses while its text colour does not.\<close>

definition demo_block_ok :: json where
  "demo_block_ok =
     JObj [(''x'', JInt 10), (''y'', JInt 5), (''width'', JInt 30), (''height'', JInt 12),
           (''text'', JStr ''Hi''), (''underline'', JBool True)]"

definition demo_block_bad :: json where
  "demo_block_bad =
     JObj [(''x'', JStr ''abc''), (''y'', JInt 5), (''width'', JInt 30), (''height'', JInt 12),
           (''text'', JStr ''Hi'')]"

definition demo_block_half :: json where
  "demo_block_half =
     JObj [(''x'', JInt 1), (''y'', JInt 2), (''width'', JInt 3), (''height'', JInt 4),
           (''text'', JStr ''Yo''), (''backgroundTransparent'', JBool False),
           (''backgroundColor'', JStr ''#00FF00''), (''textColor'', JStr ''red'')]"

definition demo_request :: json where
  "demo_request =
     JObj [(''image_path'', JStr ''uploads/photo.png''),
           (''text_blocks'', JList [demo_block_ok, demo_block_bad, demo_block_half])]"

text \<open>An OCR engine that reports a box of negative width.\<close>

definition skewed_table :: ocr_data where
  "skewed_table =
     \<lparr>level = [5], text_col = [''Hi''], left_col = [7], top_col = [8],
      width_col = [-3], height_col = [4], conf_col = [90]\<rparr>"

definition skewed_env :: env where
  "skewed_env = demo_env\<lparr>image_to_data := (\<lambda>i. Some skewed_table)\<rparr>"

text \<open>A font whose first glyph reaches one pixel to the left of the anchor.\<close>

definition overhang_env :: env where
  "overhang_env =
     demo_env\<lparr>textbbox := (\<lambda>x y t f. Some (x - 1, y, x + 7 * int (length t), y + 12))\<rparr>"



text \<open>
  A console that refuses the texts holding the code point 255. In this environment that
  code point plays the part of a lone surrogate on a UTF-8 console.
\<close>

definition strict_console_env :: env where
  "strict_console_env = demo_env\<lparr>console_accepts := (\<lambda>t. CHR 0xFF \<notin> set t)\<rparr>"

definition odd_family :: string where
  "odd_family = [CHR ''S'', CHR ''a'', CHR ''n'', CHR ''s'', CHR 0xFF]"

section \<open>Derived notions\<close>

text \<open>
  What the steps of one iteration add to the overlay, and the exception they end with,
  when they start from an empty overlay.
\<close>

definition block_cmds :: "env \<Rightarrow> json \<Rightarrow> draw_cmd list" where
  "block_cmds ev block = fst (process_block ev [] block)"

definition block_error :: "env \<Rightarrow> json \<Rightarrow> error option" where
  "block_error ev block = snd (process_block ev [] block)"

text \<open>The exception the log holds for a block.\<close>

definition block_outcome :: "env \<Rightarrow> json \<Rightarrow> error option" where
  "block_outcome ev block = snd (run_block ev [] block)"

text \<open>The base image of lines 329 to 331: the decoded file, converted unless it is RGBA.\<close>

definition rgba_base :: "image \<Rightarrow> image" where
  "rgba_base img0 = (if mode img0 \<noteq> ''RGBA'' then Convert ''RGBA'' img0 else img0)"

text \<open>The parts of a path between its slashes.\<close>

fun components :: "string \<Rightarrow> string \<Rightarrow> string list" where
  "components cur [] = [cur]"
| "components cur (c # cs) =
     (if c = CHR ''/'' then cur # components [] cs else components (cur @ [c]) cs)"

text \<open>The status and the blocks of a response.\<close>

fun status_of :: "response \<Rightarrow> nat" where
  "status_of (Response st b) = st"

fun returned_blocks :: "response \<Rightarrow> text_block list" where
  "returned_blocks (Response st (Extracted bs full b64 ip)) = bs"
| "returned_blocks r = []"

text \<open>
  A returned block agrees with the engine's table: its text is not empty and has no white
  space at either end, and some row of the table holds the text it was trimmed from, its
  width and its height.
\<close>

definition row_ok :: "ocr_data \<Rightarrow> text_block \<Rightarrow> bool" where
  "row_ok data b =
     (tb_text b \<noteq> [] \<and> \<not> py_space (hd (tb_text b)) \<and> \<not> py_space (last (tb_text b)) \<and>
      (\<exists>i < length (width_col data). i < length (height_col data) \<and> i < length (text_col data) \<and>
           tb_text b = strip (text_col data ! i) \<and>
           tb_width b = width_col data ! i \<and> tb_height b = height_col data ! i))"

text \<open>The image the example request produces.\<close>

definition demo_output :: image where
  "demo_output =
     Convert ''RGB''
       (AlphaComposite (Convert ''RGBA'' (Decoded ''uploads/photo.png'' ''RGB'' (100, 50)))
          (Canvas (100, 50)
             [Rectangle 8 3 42 19 (255, 255, 255, 200),
              DrawText 10 5 ''Hi'' (0, 0, 0, 255) DefaultFont,
              Line 10 18 24 18 (0, 0, 0, 255) 2,
              Rectangle (- 1) 0 6 8 (0, 255, 0, 255)]))"

section \<open>Auxiliary facts\<close>

subsection \<open>Sequencing and trimming\<close>

lemma and_then_Inr:
  "and_then m f = Inr v \<Longrightarrow> \<exists>u. m = Inr u \<and> f u = Inr v"
  by (cases m) (simp_all add: and_then_def)

lemma and_then_simps:
  "and_then (Inr u) f = f u" "and_then (Inl e) f = Inl e"
  by (simp_all add: and_then_def)

lemma dropWhile_hd: "dropWhile P xs \<noteq> [] \<Longrightarrow> \<not> P (hd (dropWhile P xs))"
  by (simp add: hd_dropWhile)

lemma strip_with_prefix: "\<exists>zs. dropWhile P s = strip_with P s @ zs"
proof -
  let ?t = "dropWhile P s"
  have "rev (takeWhile P (rev ?t) @ dropWhile P (rev ?t)) = ?t"
    by (simp only: takeWhile_dropWhile_id rev_rev_ident)
  then have "rev (dropWhile P (rev ?t)) @ rev (takeWhile P (rev ?t)) = ?t"
    by (simp only: rev_append)
  then have "?t = strip_with P s @ rev (takeWhile P (rev ?t))"
    by (simp only: strip_with_def)
  then show ?thesis by blast
qed

lemma strip_with_hd:
  assumes "strip_with P s \<noteq> []"
  shows "\<not> P (hd (strip_with P s))"
proof -
  obtain zs where z: "dropWhile P s = strip_with P s @ zs" using strip_with_prefix by blast
  with assms have "dropWhile P s \<noteq> []" by simp
  then have "\<not> P (hd (dropWhile P s))" by (rule dropWhile_hd)
  with z assms show ?thesis by simp
qed

lemma strip_with_last:
  assumes "strip_with P s \<noteq> []"
  shows "\<not> P (last (strip_with P s))"
proof -
  let ?u = "dropWhile P (rev (dropWhile P s))"
  from assms have ne: "?u \<noteq> []" by (simp add: strip_with_def)
  then have "\<not> P (hd ?u)" by (rule dropWhile_hd)
  moreover have "last (rev ?u) = hd ?u" using ne by (simp add: last_rev)
  ultimately show ?thesis by (simp add: strip_with_def)
qed

lemma strip_with_subset: "set (strip_with P s) \<subseteq> set s"
proof -
  have "set (dropWhile P (rev (dropWhile P s))) \<subseteq> set (rev (dropWhile P s))"
    by (rule set_dropWhileD[THEN subsetI])
  also have "\<dots> \<subseteq> set s" by (auto dest: set_dropWhileD)
  finally show ?thesis by (simp add: strip_with_def)
qed

subsection \<open>The font loops\<close>

lemma try_fonts_find:
  assumes "\<forall>p \<in> set ps. p \<noteq> Some []"
  shows "try_fonts ev sz ps =
     map_option (\<lambda>p. TrueType p sz)
       (find (\<lambda>path. path_exists ev path \<and> truetype_loads ev path sz)
          (concat (map (\<lambda>p. case p of None \<Rightarrow> [] | Some path \<Rightarrow> [path]) ps)))"
  using assms by (induction ps) (auto split: option.splits)

lemma find_append_case:
  "find P (xs @ ys) = (case find P xs of Some x \<Rightarrow> Some x | None \<Rightarrow> find P ys)"
  by (induction xs) auto

lemma table_get_candidates:
  assumes "map_of table ''Arial'' \<noteq> None"
  shows "concat (map (\<lambda>p. case p of None \<Rightarrow> [] | Some path \<Rightarrow> [path])
           (table_get table (Some family)))
         = candidates table family"
proof (cases "map_of table family")
  case None
  then have "family \<notin> set (map fst table)" by (simp add: map_of_eq_None_iff)
  with None assms show ?thesis by (auto simp: table_get_def candidates_def)
next
  case (Some ps)
  then have "family \<in> set (map fst table)" by (auto dest: map_of_SomeD intro: rev_image_eqI)
  with Some assms show ?thesis by (auto simp: table_get_def candidates_def)
qed

lemma linux_nonempty: "\<forall>p \<in> set (table_get (linux_fonts b i) k). p \<noteq> Some []"
  by (cases k) (auto simp: table_get_def linux_fonts_def split: option.splits if_splits)

lemma windows_nonempty: "\<forall>p \<in> set (table_get (windows_fonts b i) k). p \<noteq> Some []"
  by (cases k) (auto simp: table_get_def windows_fonts_def split: option.splits if_splits)

lemma linux_arial: "map_of (linux_fonts b i) ''Arial'' \<noteq> None"
  by (simp add: linux_fonts_def)

lemma windows_arial: "map_of (windows_fonts b i) ''Arial'' \<noteq> None"
  by (simp add: windows_fonts_def)

lemma get_font_string:
  "get_font ev (JStr family) sz bold italic =
     (case find (\<lambda>path. path_exists ev path \<and> truetype_loads ev path sz)
             (candidates (linux_fonts (truthy bold) (truthy italic)) family @
              candidates (windows_fonts (truthy bold) (truthy italic)) family) of
        Some path \<Rightarrow> Inr (TrueType path sz)
      | None \<Rightarrow> if console_accepts ev family then Inr DefaultFont
                else Inl UnicodeEncodeError)"
  by (simp add: get_font_def py_str_def try_fonts_find linux_nonempty windows_nonempty
      table_get_candidates linux_arial windows_arial find_append_case split: option.splits)


lemma get_font_string_resolves:
  "get_font ev (JStr family) sz bold italic = Inr fnt \<Longrightarrow>
     fnt = resolve_font ev family sz (truthy bold) (truthy italic)"
  by (auto simp: get_font_string resolve_font_def split: option.splits if_splits)

subsection \<open>One block and the loop\<close>

text \<open>
  An iteration only appends to the overlay, and what it appends and how it ends do not
  depend on what the overlay holds.
\<close>

lemma process_block_append:
  "process_block ev ov b = (ov @ block_cmds ev b, block_error ev b)"
  by (auto simp: block_cmds_def block_error_def process_block_def draw_background_def
        draw_underline_def draw_def and_then_def Let_def
      split: sum.splits option.splits prod.splits if_splits)

lemma run_block_append:
  "run_block ev ov b = (ov @ block_cmds ev b, block_outcome ev b)"
  by (simp add: run_block_def block_outcome_def process_block_append[of ev ov b]
        process_block_append[of ev "[]" b] split: option.splits sum.splits)

lemma outcome_of_error: "block_error ev b = Some e \<Longrightarrow> block_outcome ev b = Some e"
  by (simp add: block_outcome_def run_block_def process_block_append[of ev "[]" b])

lemma process_blocks_eq:
  "process_blocks ev idx bs ov lg =
     (ov @ concat (map (block_cmds ev) bs),
      lg @ map (\<lambda>(i, b). (i, block_outcome ev b)) (enumerate (idx + 1) bs))"
  by (induction bs arbitrary: idx ov lg) (simp_all add: run_block_append)













lemma read_block_fields:
  assumes "read_block ev block = Inr a"
  shows "and_then (subscript block ''x'') py_int = Inr (a_x a)
       \<and> and_then (subscript block ''y'') py_int = Inr (a_y a)
       \<and> and_then (subscript block ''width'') py_int = Inr (a_w a)
       \<and> and_then (subscript block ''height'') py_int = Inr (a_h a)
       \<and> dict_get block ''underline'' (JBool False) = Inr (a_underline a)
       \<and> dict_get block ''textColor'' (JStr ''#000000'') = Inr (a_text_color a)
       \<and> dict_get block ''backgroundColor'' (JStr ''#FFFFFF'') = Inr (a_bg_color a)
       \<and> dict_get block ''backgroundTransparent'' (JBool True) = Inr (a_bg_transparent a)"
  using assms unfolding read_block_def
  by (auto dest!: and_then_Inr simp: and_then_simps)

lemma draw_background_cases:
  "draw_background ev ov a = Inr ov1 \<Longrightarrow>
     (truthy (a_bg_transparent a) \<and> ov1 = ov @ [cover a (255, 255, 255, 200)]) \<or>
     (\<not> truthy (a_bg_transparent a) \<and>
        (\<exists>rgb. hex_to_rgb (a_bg_color a) = Inr rgb \<and> ov1 = ov @ [cover a (opaque rgb)]))"
  by (auto simp: draw_background_def draw_def and_then_def split: if_splits sum.splits)

lemma rect_in_block:
  assumes rd: "read_block ev block = Inr a"
    and mem: "Rectangle x0 y0 x1 y1 fill \<in> set (block_cmds ev block)"
  shows "x0 = a_x a - 2 \<and> y0 = a_y a - 2 \<and> x1 = a_x a + a_w a + 2 \<and> y1 = a_y a + a_h a + 2
       \<and> (if truthy (a_bg_transparent a) then fill = (255, 255, 255, 200)
           else \<exists>rgb. hex_to_rgb (a_bg_color a) = Inr rgb \<and> fill = opaque rgb)"
  using assms
  by (auto simp: block_cmds_def process_block_def draw_background_def draw_underline_def draw_def
        and_then_def cover_def Let_def
      split: sum.splits option.splits prod.splits if_splits)

lemma block_starts_with_cover:
  assumes rd: "read_block ev block = Inr a"
    and fn: "get_font ev (a_font_family a) (a_font_size a) (a_bold a) (a_italic a) = Inr fnt"
    and bg: "draw_background ev [] a = Inr [c]"
  shows "block_cmds ev block \<noteq> [] \<and> hd (block_cmds ev block) = c"
  using assms
  by (auto simp: block_cmds_def process_block_def draw_underline_def draw_def
        and_then_def cover_def Let_def
      split: sum.splits option.splits prod.splits if_splits)

lemma block_underlined:
  assumes rd: "read_block ev block = Inr a"
    and fn: "get_font ev (a_font_family a) (a_font_size a) (a_bold a) (a_italic a) = Inr fnt"
    and bg: "draw_background ev ov a = Inr ov1"
    and tc: "hex_to_rgb (a_text_color a) = Inr rgb"
    and dt: "draw_accepts ev (DrawText (a_x a) (a_y a) (a_text a) (opaque rgb) fnt)"
    and ul: "truthy (a_underline a)"
    and bb: "textbbox ev (a_x a) (a_y a) (a_text a) fnt = Some (bl, bt, br, bb)"
    and ln: "draw_accepts ev (Line (a_x a) (bb + 1) br (bb + 1) (opaque rgb) 2)"
  shows "process_block ev ov block =
           (ov1 @ [DrawText (a_x a) (a_y a) (a_text a) (opaque rgb) fnt,
                   Line (a_x a) (bb + 1) br (bb + 1) (opaque rgb) 2], None)"
  using assms
  by (simp add: process_block_def draw_underline_def draw_def Let_def)

lemma block_half_drawn:
  assumes rd: "read_block ev block = Inr a"
    and fn: "get_font ev (a_font_family a) (a_font_size a) (a_bold a) (a_italic a) = Inr fnt"
    and bg: "draw_background ev ov a = Inr ov1"
    and tc: "hex_to_rgb (a_text_color a) = Inl e"
  shows "process_block ev ov block = (ov1, Some e)"
  using assms by (simp add: process_block_def)

subsection \<open>The edit handler\<close>

lemma output_path: "path_join UPLOAD_FOLDER (output_name ev p) = ''uploads/'' @ output_name ev p"
  by (simp add: path_join_def UPLOAD_FOLDER_def output_name_def)

lemma image_open_Inr:
  "image_open ev v = Inr (p, img) \<Longrightarrow>
     \<exists>m s. v = JStr p \<and> open_image ev p = Some (m, s) \<and> img = Decoded p m s"
  by (cases v) (auto split: option.splits)

lemma update_image_success:
  assumes ip: "dict_get data ''image_path'' JNull = Inr (JStr p)"
    and tb: "dict_get data ''text_blocks'' JNull = Inr (JList bs)"
    and ne: "p \<noteq> []" "bs \<noteq> []"
    and ex: "path_exists ev p"
    and op: "open_image ev p = Some (m, s)"
    and sv: "save_accepts ev (''uploads/'' @ output_name ev p)
               (compose (rgba_base (Decoded p m s)) (concat (map (block_cmds ev) bs)))"
  shows "update_image ev (Some data) =
           (Response 200
              (Edited (''data:image/png;base64,'' @
                       png_base64 ev (compose (rgba_base (Decoded p m s))
                                        (concat (map (block_cmds ev) bs))))
                 (output_name ev p)),
            [Opened p,
             Saved (''uploads/'' @ output_name ev p)
               (compose (rgba_base (Decoded p m s)) (concat (map (block_cmds ev) bs)))])"
  using assms
  by (simp add: update_image_def and_then_def process_blocks_eq rgba_base_def Let_def output_path)

lemma update_image_200:
  assumes "update_image ev rq = (Response 200 bdy, evs)"
  shows "\<exists>data p m s tb bs.
           rq = Some data \<and> dict_get data ''image_path'' JNull = Inr (JStr p) \<and>
           dict_get data ''text_blocks'' JNull = Inr tb \<and> py_iter tb = Inr bs \<and>
           path_exists ev p \<and> open_image ev p = Some (m, s) \<and>
           bdy = Edited (''data:image/png;base64,'' @
                         png_base64 ev (compose (rgba_base (Decoded p m s))
                                          (concat (map (block_cmds ev) bs))))
                   (output_name ev p) \<and>
           evs = [Opened p,
                  Saved (''uploads/'' @ output_name ev p)
                    (compose (rgba_base (Decoded p m s)) (concat (map (block_cmds ev) bs)))]"
proof -
  from assms obtain data where rq: "rq = Some data"
    by (cases rq) (auto simp: update_image_def)
  from assms rq obtain ip tb where
    ip: "dict_get data ''image_path'' JNull = Inr ip" and
    tb: "dict_get data ''text_blocks'' JNull = Inr tb"
    by (auto simp: update_image_def and_then_def split: sum.splits)
  from assms rq ip tb have tr: "truthy ip" "truthy tb"
    by (auto simp: update_image_def and_then_simps split: if_splits)
  from assms rq ip tb tr have ex: "os_path_exists ev ip = Inr True"
    by (auto simp: update_image_def and_then_simps split: sum.splits bool.splits)
  from assms rq ip tb tr ex obtain p img0 where op: "image_open ev ip = Inr (p, img0)"
    by (auto simp: update_image_def and_then_simps split: sum.splits)
  then obtain m s where ips: "ip = JStr p" and om: "open_image ev p = Some (m, s)"
    and img0: "img0 = Decoded p m s"
    using image_open_Inr by blast
  from assms rq ip tb tr ex op obtain bs where bs: "py_iter tb = Inr bs"
    by (auto simp: update_image_def and_then_simps Let_def split: sum.splits)
  from assms rq ip tb tr ex op bs img0 have
    "bdy = Edited (''data:image/png;base64,'' @
                   png_base64 ev (compose (rgba_base (Decoded p m s))
                                    (concat (map (block_cmds ev) bs))))
             (output_name ev p) \<and>
     evs = [Opened p,
            Saved (''uploads/'' @ output_name ev p)
              (compose (rgba_base (Decoded p m s)) (concat (map (block_cmds ev) bs)))]"
    by (auto simp: update_image_def and_then_simps Let_def process_blocks_eq rgba_base_def
          output_path split: if_splits)
  moreover from ex ips have "path_exists ev p" by simp
  moreover from ip ips have "dict_get data ''image_path'' JNull = Inr (JStr p)" by simp
  ultimately show ?thesis using rq tb bs om by blast
qed

lemma compose_shape:
  "compose (rgba_base (Decoded p m s)) ov =
     Convert ''RGB'' (AlphaComposite (rgba_base (Decoded p m s)) (Canvas s ov))"
  by (simp add: compose_def rgba_base_def)

subsection \<open>Extraction\<close>

lemma extract_row_ok:
  assumes "extract_row data i = Inr bs" "b \<in> set bs"
  shows "row_ok data b"
proof -
  from assms obtain tx where t: "item (text_col data) i = Inr tx"
    unfolding extract_row_def by (auto dest!: and_then_Inr)
  show ?thesis
  proof (cases "tx \<noteq> [] \<and> strip tx \<noteq> []")
    case False
    with assms t show ?thesis by (auto simp: extract_row_def and_then_simps)
  next
    case True
    then have s: "strip_with py_space tx \<noteq> []" by (simp add: strip_def)
    from assms t True have
      "\<exists>l tp w h c. item (width_col data) i = Inr w \<and> item (height_col data) i = Inr h \<and>
         b = \<lparr>tb_text = strip tx, tb_x = l, tb_y = tp, tb_width = w, tb_height = h,
                 tb_confidence = c, tb_fontSize = 20, tb_fontFamily = ''Arial'',
                 tb_bold = False, tb_italic = False, tb_underline = False,
                 tb_textColor = ''#000000'', tb_backgroundColor = ''#FFFFFF'',
                 tb_backgroundTransparent = True\<rparr>"
      unfolding extract_row_def by (auto dest!: and_then_Inr simp: and_then_simps)
    then obtain l tp w h c where
      w: "item (width_col data) i = Inr w" and h: "item (height_col data) i = Inr h" and
      b: "b = \<lparr>tb_text = strip tx, tb_x = l, tb_y = tp, tb_width = w, tb_height = h,
                 tb_confidence = c, tb_fontSize = 20, tb_fontFamily = ''Arial'',
                 tb_bold = False, tb_italic = False, tb_underline = False,
                 tb_textColor = ''#000000'', tb_backgroundColor = ''#FFFFFF'',
                 tb_backgroundTransparent = True\<rparr>" by blast
    from t w h have "i < length (text_col data) \<and> tx = text_col data ! i \<and>
        i < length (width_col data) \<and> w = width_col data ! i \<and>
        i < length (height_col data) \<and> h = height_col data ! i"
      by (auto simp: item_def split: if_splits)
    with b s strip_with_hd[OF s] strip_with_last[OF s] show ?thesis
      by (auto simp: row_ok_def strip_def)
  qed
qed

lemma extract_rows_ok:
  assumes "extract_rows data ixs acc = Inr bs" "\<forall>b \<in> set acc. row_ok data b"
  shows "\<forall>b \<in> set bs. row_ok data b"
  using assms
proof (induction ixs arbitrary: acc)
  case Nil
  then show ?case by simp
next
  case (Cons i rest)
  then obtain r where r: "extract_row data i = Inr r" and
    rest: "extract_rows data rest (acc @ r) = Inr bs"
    by (auto split: sum.splits)
  have "\<forall>b \<in> set (acc @ r). row_ok data b"
    using Cons.prems(2) extract_row_ok[OF r] by auto
  from Cons.IH[OF rest this] show ?case .
qed

lemma extract_blocks_ok:
  "extract_blocks data = Inr bs \<Longrightarrow> b \<in> set bs \<Longrightarrow> row_ok data b"
  using extract_rows_ok[of data "[0 ..< length (level data)]" "[]" bs]
  by (simp add: extract_blocks_def)

lemma extract_text_200:
  assumes "extract_text ev available upload =
             (Response 200 (Extracted text_blocks full b64 ip), evs)"
  shows "\<exists>img data. image_to_data ev img = Some data \<and> extract_blocks data = Inr text_blocks"
  using assms
  by (auto simp: extract_text_def Let_def split: if_splits option.splits sum.splits prod.splits)

lemma row_ok_nonneg:
  assumes "row_ok data b"
  shows "((\<forall>w \<in> set (width_col data). 0 \<le> w) \<longrightarrow> 0 \<le> tb_width b) \<and>
         ((\<forall>h \<in> set (height_col data). 0 \<le> h) \<longrightarrow> 0 \<le> tb_height b)"
  using assms by (auto simp: row_ok_def)

subsection \<open>Download paths\<close>

lemma components_no_slash: "CHR ''/'' \<notin> set s \<Longrightarrow> components cur s = [cur @ s]"
  by (induction s arbitrary: cur) auto

lemma served_no_slash:
  assumes "CHR ''/'' \<notin> set (secure_filename ev f)"
  shows "served_path ev f = ''uploads/'' @ secure_filename ev f \<and>
         components [] (served_path ev f) = [''uploads'', secure_filename ev f]"
proof -
  have a: "served_path ev f = ''uploads/'' @ secure_filename ev f"
    using assms
    by (cases "secure_filename ev f") (auto simp: served_path_def path_join_def UPLOAD_FOLDER_def)
  have "components [] (served_path ev f) = [''uploads'', secure_filename ev f]"
    using assms by (simp add: a components_no_slash)
  with a show ?thesis by simp
qed

lemma secure_filename_ascii_no_slash: "CHR ''/'' \<notin> set (secure_filename_ascii s)"
proof -
  let ?P = "\<lambda>c. c = CHR ''.'' \<or> c = CHR ''_''"
  let ?t = "filter safe_char (join_underscore (words_of [] s))"
  have "set (strip_with ?P ?t) \<subseteq> set ?t" by (rule strip_with_subset)
  moreover have "CHR ''/'' \<notin> set ?t" by (simp add: safe_char_def)
  ultimately show ?thesis unfolding secure_filename_ascii_def by blast
qed

lemma secure_filename_ascii_not_dots: "secure_filename_ascii s \<noteq> ''..''"
proof
  let ?P = "\<lambda>c. c = CHR ''.'' \<or> c = CHR ''_''"
  let ?t = "filter safe_char (join_underscore (words_of [] s))"
  assume e: "secure_filename_ascii s = ''..''"
  then have "strip_with ?P ?t \<noteq> []" by (simp add: secure_filename_ascii_def)
  from strip_with_hd[OF this] e show False by (simp add: secure_filename_ascii_def)
qed

lemma download_file_eq:
  "download_file ev f =
     (if path_exists ev (served_path ev f)
      then (if send_file_ok ev (served_path ev f)
            then Response 200 (Attachment (served_path ev f) (secure_filename ev f))
            else Response 500 (Raised LibraryError))
      else Response 404 (ErrorMessage ''File not found''))"
  by (simp add: download_file_def served_path_def Let_def)

subsection \<open>The example environment, evaluated\<close>

lemma demo_read_ok:
  "read_block demo_env demo_block_ok =
     Inr \<lparr>a_x = 10, a_y = 5, a_w = 30, a_h = 12, a_text = ''Hi'', a_font_size = 20,
          a_font_family = JStr ''Arial'', a_bold = JBool False, a_italic = JBool False,
          a_underline = JBool True, a_text_color = JStr ''#000000'',
          a_bg_color = JStr ''#FFFFFF'', a_bg_transparent = JBool True\<rparr>"
  by code_simp

lemma demo_read_half:
  "read_block demo_env demo_block_half =
     Inr \<lparr>a_x = 1, a_y = 2, a_w = 3, a_h = 4, a_text = ''Yo'', a_font_size = 20,
          a_font_family = JStr ''Arial'', a_bold = JBool False, a_italic = JBool False,
          a_underline = JBool False, a_text_color = JStr ''red'',
          a_bg_color = JStr ''#00FF00'', a_bg_transparent = JBool False\<rparr>"
  by code_simp

lemma demo_font: "get_font demo_env (JStr ''Arial'') 20 (JBool False) (JBool False) = Inr DefaultFont"
  by code_simp




lemma demo_errors:
  "block_error demo_env demo_block_ok = None"
  "block_error demo_env demo_block_bad = Some ValueError"
  "block_error demo_env demo_block_half = Some ValueError"
  by code_simp+

lemma demo_outcomes:
  "block_outcome demo_env demo_block_ok = None"
  "block_outcome demo_env demo_block_bad = Some ValueError"
  "block_outcome demo_env demo_block_half = Some ValueError"
  by code_simp+

lemma demo_request_fields:
  "dict_get demo_request ''image_path'' JNull = Inr (JStr ''uploads/photo.png'')"
  "dict_get demo_request ''text_blocks'' JNull =
     Inr (JList [demo_block_ok, demo_block_bad, demo_block_half])"
  by (simp_all add: demo_request_def)

lemma demo_files:
  "path_exists demo_env ''uploads/photo.png''"
  "open_image demo_env ''uploads/photo.png'' = Some (''RGB'', (100, 50))"
  "output_name demo_env ''uploads/photo.png'' = ''edited_photo.png''"
  by code_simp+

lemma demo_saves: "save_accepts demo_env ''uploads/edited_photo.png'' img"
  by (simp add: demo_env_def has_suffix_def)


section \<open>The claims\<close>




text \<open>
  C2. The claim is that \<open>get_font\<close> never raises, for every family string. The code
  falls short of it on its last path: when no candidate of either table loads, the
  \<open>print\<close> of line 146, which no handler guards, comes before the fallback to the default
  font, and it raises when the console cannot encode the family. Evaluated here: with a
  console that refuses the family's text and the size 0, at which no font file loads,
  \<open>get_font\<close> raises; with a console that prints the text it returns the default font,
  and with a candidate that loads it returns that font without printing.
\<close>

theorem get_font_raises_when_print_fails:
  "get_font strict_console_env (JStr odd_family) 0 (JBool False) (JBool False) =
     Inl UnicodeEncodeError
   \<and> get_font demo_env (JStr odd_family) 0 (JBool False) (JBool False) = Inr DefaultFont
   \<and> get_font strict_console_env (JStr odd_family) 20 (JBool True) (JBool False) =
       Inr (TrueType ''/usr/share/fonts/truetype/liberation/LiberationSans-Bold.ttf'' 20)"
  by code_simp

text \<open>
  C3 (as the code has it). Every block \<open>extract_text\<close> returns has a text that is not
  empty and has no white space at either end, and its width and height are the numbers
  the OCR engine reported for the row the text comes from; so they are non-negative
  whenever the engine's are. The code makes no check of its own on them.
\<close>

theorem extract_text_blocks:
  assumes "extract_text ev available upload =
             (Response 200 (Extracted text_blocks full b64 ip), evs)"
  shows "\<exists>img data. image_to_data ev img = Some data \<and> extract_blocks data = Inr text_blocks \<and>
           (\<forall>b \<in> set text_blocks. row_ok data b \<and>
              ((\<forall>w \<in> set (width_col data). 0 \<le> w) \<longrightarrow> 0 \<le> tb_width b) \<and>
              ((\<forall>h \<in> set (height_col data). 0 \<le> h) \<longrightarrow> 0 \<le> tb_height b))"
proof -
  from extract_text_200[OF assms] obtain img data where
    d: "image_to_data ev img = Some data" and e: "extract_blocks data = Inr text_blocks"
    by blast
  have "\<forall>b \<in> set text_blocks. row_ok data b \<and>
              ((\<forall>w \<in> set (width_col data). 0 \<le> w) \<longrightarrow> 0 \<le> tb_width b) \<and>
              ((\<forall>h \<in> set (height_col data). 0 \<le> h) \<longrightarrow> 0 \<le> tb_height b)"
    using extract_blocks_ok[OF e] row_ok_nonneg by blast
  with d e show ?thesis by blast
qed

theorem extract_text_blocks_witness:
  "status_of (fst (extract_text demo_env True (Some ''photo.png''))) = 200
   \<and> map tb_text (returned_blocks (fst (extract_text demo_env True (Some ''photo.png'')))) =
       [''Hello'']
   \<and> (\<exists>img data. image_to_data demo_env img = Some data \<and>
        extract_blocks data =
          Inr (returned_blocks (fst (extract_text demo_env True (Some ''photo.png'')))) \<and>
        (\<forall>b \<in> set (returned_blocks (fst (extract_text demo_env True (Some ''photo.png'')))).
           row_ok data b \<and>
           ((\<forall>w \<in> set (width_col data). 0 \<le> w) \<longrightarrow> 0 \<le> tb_width b) \<and>
           ((\<forall>h \<in> set (height_col data). 0 \<le> h) \<longrightarrow> 0 \<le> tb_height b)))"
proof -
  have e: "extract_text demo_env True (Some ''photo.png'') =
     (Response 200
        (Extracted
           [\<lparr>tb_text = ''Hello'', tb_x = 12, tb_y = 9, tb_width = 41, tb_height = 14,
              tb_confidence = 96, tb_fontSize = 20, tb_fontFamily = ''Arial'',
              tb_bold = False, tb_italic = False, tb_underline = False,
              tb_textColor = ''#000000'', tb_backgroundColor = ''#FFFFFF'',
              tb_backgroundTransparent = True\<rparr>]
           ''Hello'' ''data:image/png;base64,iVBORw0KGgo='' ''uploads/photo.png''),
      [Uploaded ''uploads/photo.png'', Opened ''uploads/photo.png'',
       Opened ''uploads/photo.png''])"
    by code_simp
  from extract_text_blocks[OF e] show ?thesis by (simp add: e)
qed

theorem extract_text_negative_width:
  "status_of (fst (extract_text skewed_env True (Some ''photo.png''))) = 200
   \<and> map tb_text (returned_blocks (fst (extract_text skewed_env True (Some ''photo.png'')))) =
       [''Hi'']
   \<and> map tb_width (returned_blocks (fst (extract_text skewed_env True (Some ''photo.png'')))) =
       [- 3]"
  by code_simp

text \<open>
  C4. The covering rectangle of a block spans the block's bounding box expanded by 2
  pixels on each side; its fill is the requested background colour at full opacity when
  \<open>backgroundTransparent\<close> is false, and the translucent white of alpha 200 when it is
  true. Stated here, for a block whose fields were read (\<open>x\<close>, \<open>y\<close>, \<open>width\<close>, \<open>height\<close>
  being the integers of the block): every rectangle the block draws has these corners and
  this fill; and when the font lookup returns and the drawing surface accepts the
  rectangle with the corners and the fill described, it is the first thing the block
  draws.
\<close>

theorem cover_rectangle:
  assumes rd: "read_block ev block = Inr a"
  shows "and_then (subscript block ''x'') py_int = Inr (a_x a)
       \<and> and_then (subscript block ''y'') py_int = Inr (a_y a)
       \<and> and_then (subscript block ''width'') py_int = Inr (a_w a)
       \<and> and_then (subscript block ''height'') py_int = Inr (a_h a)
       \<and> dict_get block ''backgroundColor'' (JStr ''#FFFFFF'') = Inr (a_bg_color a)
       \<and> dict_get block ''backgroundTransparent'' (JBool True) = Inr (a_bg_transparent a)
       \<and> (\<forall>x0 y0 x1 y1 fill.
            Rectangle x0 y0 x1 y1 fill \<in> set (block_cmds ev block) \<longrightarrow>
              x0 = a_x a - 2 \<and> y0 = a_y a - 2 \<and>
              x1 = a_x a + a_w a + 2 \<and> y1 = a_y a + a_h a + 2 \<and>
              (if truthy (a_bg_transparent a) then fill = (255, 255, 255, 200)
               else \<exists>r g b. hex_to_rgb (a_bg_color a) = Inr (r, g, b) \<and> fill = (r, g, b, 255)))
       \<and> (\<forall>fnt fill.
            get_font ev (a_font_family a) (a_font_size a) (a_bold a) (a_italic a) = Inr fnt \<and>
            (if truthy (a_bg_transparent a) then fill = (255, 255, 255, 200)
             else \<exists>r g b. hex_to_rgb (a_bg_color a) = Inr (r, g, b) \<and> fill = (r, g, b, 255)) \<and>
            draw_accepts ev
              (Rectangle (a_x a - 2) (a_y a - 2) (a_x a + a_w a + 2) (a_y a + a_h a + 2) fill)
            \<longrightarrow> block_cmds ev block \<noteq> [] \<and>
                hd (block_cmds ev block) =
                  Rectangle (a_x a - 2) (a_y a - 2) (a_x a + a_w a + 2) (a_y a + a_h a + 2) fill)"
proof -
  have drawn: "x0 = a_x a - 2 \<and> y0 = a_y a - 2 \<and>
              x1 = a_x a + a_w a + 2 \<and> y1 = a_y a + a_h a + 2 \<and>
              (if truthy (a_bg_transparent a) then fill = (255, 255, 255, 200)
               else \<exists>r g b. hex_to_rgb (a_bg_color a) = Inr (r, g, b) \<and> fill = (r, g, b, 255))"
    if "Rectangle x0 y0 x1 y1 fill \<in> set (block_cmds ev block)" for x0 y0 x1 y1 fill
    using rect_in_block[OF rd that] by (auto simp: opaque_def split: if_splits)
  have first: "block_cmds ev block \<noteq> [] \<and>
                hd (block_cmds ev block) =
                  Rectangle (a_x a - 2) (a_y a - 2) (a_x a + a_w a + 2) (a_y a + a_h a + 2) fill"
    if fn: "get_font ev (a_font_family a) (a_font_size a) (a_bold a) (a_italic a) = Inr fnt"
      and fl: "if truthy (a_bg_transparent a) then fill = (255, 255, 255, 200)
             else \<exists>r g b. hex_to_rgb (a_bg_color a) = Inr (r, g, b) \<and> fill = (r, g, b, 255)"
      and ok: "draw_accepts ev
              (Rectangle (a_x a - 2) (a_y a - 2) (a_x a + a_w a + 2) (a_y a + a_h a + 2) fill)"
    for fnt fill
  proof -
    from fl ok have "draw_background ev [] a =
        Inr [Rectangle (a_x a - 2) (a_y a - 2) (a_x a + a_w a + 2) (a_y a + a_h a + 2) fill]"
      by (auto simp: draw_background_def draw_def cover_def and_then_simps opaque_def
          split: if_splits)
    from block_starts_with_cover[OF rd fn this] show ?thesis .
  qed
  from read_block_fields[OF rd] drawn first show ?thesis by blast
qed

theorem cover_rectangle_witness:
  "hd (block_cmds demo_env demo_block_half) = Rectangle (- 1) 0 6 8 (0, 255, 0, 255)
   \<and> hd (block_cmds demo_env demo_block_ok) = Rectangle 8 3 42 19 (255, 255, 255, 200)
   \<and> and_then (subscript demo_block_half ''width'') py_int = Inr 3"
proof -
  have h1: "hex_to_rgb (JStr ''#00FF00'') = Inr (0, 255, 0)" by code_simp
  have a1: "draw_accepts demo_env (Rectangle (- 1) 0 6 8 (0, 255, 0, 255))"
    by (simp add: demo_env_def)
  have a2: "draw_accepts demo_env (Rectangle 8 3 42 19 (255, 255, 255, 200))"
    by (simp add: demo_env_def)
  from cover_rectangle[OF demo_read_half] demo_font h1 a1
  have "hd (block_cmds demo_env demo_block_half) = Rectangle (- 1) 0 6 8 (0, 255, 0, 255)
        \<and> and_then (subscript demo_block_half ''width'') py_int = Inr 3"
    by simp
  moreover from cover_rectangle[OF demo_read_ok] demo_font a2
  have "hd (block_cmds demo_env demo_block_ok) = Rectangle 8 3 42 19 (255, 255, 255, 200)"
    by simp
  ultimately show ?thesis by simp
qed

text \<open>
  C5 (as the code has it). For a block with a true \<open>underline\<close> that reaches the underline
  step, whose text measurement returns a box (left, top, right, bottom) and whose line
  call the drawing surface accepts, \<open>update_image\<close> draws, right after the text, a
  horizontal line of width 2 in the text colour, 1 pixel below the bottom of the box,
  from the block's \<open>x\<close> to the right edge of the box. Its length is the measured width
  plus the distance from \<open>x\<close> to the left edge of the box, so it spans the measured width
  whenever the box does not begin to the left of \<open>x\<close>.
\<close>

theorem underline_line:
  assumes rd: "read_block ev block = Inr a"
    and fn: "get_font ev (a_font_family a) (a_font_size a) (a_bold a) (a_italic a) = Inr fnt"
    and bg: "draw_background ev ov a = Inr ov1"
    and tc: "hex_to_rgb (a_text_color a) = Inr rgb"
    and dt: "draw_accepts ev (DrawText (a_x a) (a_y a) (a_text a) (opaque rgb) fnt)"
    and ul: "truthy (a_underline a)"
    and bb: "textbbox ev (a_x a) (a_y a) (a_text a) fnt = Some (bl, bt, br, bb)"
    and ln: "draw_accepts ev (Line (a_x a) (bb + 1) br (bb + 1) (opaque rgb) 2)"
  shows "process_block ev ov block =
           (ov1 @ [DrawText (a_x a) (a_y a) (a_text a) (opaque rgb) fnt,
                   Line (a_x a) (bb + 1) br (bb + 1) (opaque rgb) 2], None)
       \<and> dict_get block ''underline'' (JBool False) = Inr (a_underline a)
       \<and> br - a_x a = (br - bl) + (bl - a_x a)
       \<and> (a_x a \<le> bl \<longrightarrow> br - bl \<le> br - a_x a)"
  using block_underlined[OF assms] read_block_fields[OF rd] by simp

theorem underline_line_witness:
  "process_block demo_env [] demo_block_ok =
     ([Rectangle 8 3 42 19 (255, 255, 255, 200),
       DrawText 10 5 ''Hi'' (0, 0, 0, 255) DefaultFont,
       Line 10 18 24 18 (0, 0, 0, 255) 2], None)
   \<and> textbbox demo_env 10 5 ''Hi'' DefaultFont = Some (10, 5, 24, 17)"
proof -
  let ?a = "\<lparr>a_x = 10, a_y = 5, a_w = 30, a_h = 12, a_text = ''Hi'', a_font_size = 20,
          a_font_family = JStr ''Arial'', a_bold = JBool False, a_italic = JBool False,
          a_underline = JBool True, a_text_color = JStr ''#000000'',
          a_bg_color = JStr ''#FFFFFF'', a_bg_transparent = JBool True\<rparr>"
  have fn: "get_font demo_env (a_font_family ?a) (a_font_size ?a) (a_bold ?a) (a_italic ?a)
              = Inr DefaultFont"
    by (simp add: demo_font)
  have bg: "draw_background demo_env [] ?a = Inr [Rectangle 8 3 42 19 (255, 255, 255, 200)]"
    by code_simp
  have tc: "hex_to_rgb (a_text_color ?a) = Inr (0, 0, 0)" by code_simp
  have dt: "draw_accepts demo_env
              (DrawText (a_x ?a) (a_y ?a) (a_text ?a) (opaque (0, 0, 0)) DefaultFont)"
    by code_simp
  have ul: "truthy (a_underline ?a)" by simp
  have bb: "textbbox demo_env (a_x ?a) (a_y ?a) (a_text ?a) DefaultFont = Some (10, 5, 24, 17)"
    by code_simp
  have ln: "draw_accepts demo_env (Line (a_x ?a) (17 + 1) 24 (17 + 1) (opaque (0, 0, 0)) 2)"
    by code_simp
  from underline_line[OF demo_read_ok fn bg tc dt ul bb ln] bb
  show ?thesis by (simp add: opaque_def)
qed

theorem underline_short_of_measured_width:
  "process_block overhang_env [] demo_block_ok =
     ([Rectangle 8 3 42 19 (255, 255, 255, 200),
       DrawText 10 5 ''Hi'' (0, 0, 0, 255) DefaultFont,
       Line 10 18 24 18 (0, 0, 0, 255) 2], None)
   \<and> textbbox overhang_env 10 5 ''Hi'' DefaultFont = Some (9, 5, 24, 17)
   \<and> (24 - 10 :: int) < 24 - 9"
  by code_simp

text \<open>
  C6. When the body of an \<open>update_image\<close> request gives a non-empty \<open>image_path\<close> string
  and a non-empty \<open>text_blocks\<close> list (or any other true value), and no file has that
  path, the answer is 404 with the message of the missing image, not 500, and nothing is
  opened or written.
\<close>

theorem update_image_missing_file:
  assumes ip: "dict_get data ''image_path'' JNull = Inr (JStr p)"
    and tb: "dict_get data ''text_blocks'' JNull = Inr tbs"
    and ne: "p \<noteq> []" "truthy tbs"
    and ex: "\<not> path_exists ev p"
  shows "update_image ev (Some data) =
           (Response 404 (ErrorMessage ''Original image not found''), [])"
  using assms by (simp add: update_image_def and_then_def)

theorem update_image_missing_file_witness:
  "update_image demo_env
     (Some (JObj [(''image_path'', JStr ''uploads/gone.png''),
                  (''text_blocks'', JList [demo_block_ok])])) =
     (Response 404 (ErrorMessage ''Original image not found''), [])"
proof -
  have ne: "''uploads/gone.png'' \<noteq> []" "truthy (JList [demo_block_ok])" by simp_all
  have ex: "\<not> path_exists demo_env ''uploads/gone.png''" by code_simp
  show ?thesis
    by (rule update_image_missing_file[OF _ _ ne ex]) simp_all
qed

text \<open>
  C7. For every successful \<open>update_image\<close> request, the output is the base image (the
  decoded file, in mode RGBA) alpha-composited with the overlay and converted to RGB, a
  mode without alpha channel; it is saved in the upload folder under \<open>edited_\<close> followed
  by the sanitised base name of \<open>image_path\<close>, and the same image is returned as a
  base64 PNG data URI together with that file name.
\<close>

theorem update_image_output:
  assumes "update_image ev rq = (Response 200 bdy, evs)"
  shows "\<exists>data p m s tb bs out.
           rq = Some data \<and> dict_get data ''image_path'' JNull = Inr (JStr p) \<and>
           dict_get data ''text_blocks'' JNull = Inr tb \<and> py_iter tb = Inr bs \<and>
           open_image ev p = Some (m, s) \<and>
           out = Convert ''RGB''
                   (AlphaComposite (rgba_base (Decoded p m s))
                      (Canvas s (concat (map (block_cmds ev) bs)))) \<and>
           mode (rgba_base (Decoded p m s)) = ''RGBA'' \<and> mode out = ''RGB'' \<and>
           evs = [Opened p, Saved (''uploads/edited_'' @ secure_filename ev (basename p)) out] \<and>
           bdy = Edited (''data:image/png;base64,'' @ png_base64 ev out)
                   (''edited_'' @ secure_filename ev (basename p))"
proof -
  from update_image_200[OF assms] obtain data p m s tb bs where
    h: "rq = Some data" "dict_get data ''image_path'' JNull = Inr (JStr p)"
       "dict_get data ''text_blocks'' JNull = Inr tb" "py_iter tb = Inr bs"
       "open_image ev p = Some (m, s)"
       "bdy = Edited (''data:image/png;base64,'' @
                         png_base64 ev (compose (rgba_base (Decoded p m s))
                                          (concat (map (block_cmds ev) bs))))
                   (output_name ev p)"
       "evs = [Opened p,
                  Saved (''uploads/'' @ output_name ev p)
                    (compose (rgba_base (Decoded p m s)) (concat (map (block_cmds ev) bs)))]"
    by blast
  let ?out = "Convert ''RGB''
                (AlphaComposite (rgba_base (Decoded p m s))
                   (Canvas s (concat (map (block_cmds ev) bs))))"
  have "mode (rgba_base (Decoded p m s)) = ''RGBA''" by (simp add: rgba_base_def)
  moreover have "mode ?out = ''RGB''" by simp
  moreover from h have
    "evs = [Opened p, Saved (''uploads/edited_'' @ secure_filename ev (basename p)) ?out]"
    by (simp add: compose_shape output_name_def)
  moreover from h have
    "bdy = Edited (''data:image/png;base64,'' @ png_base64 ev ?out)
              (''edited_'' @ secure_filename ev (basename p))"
    by (simp add: compose_shape output_name_def)
  ultimately show ?thesis using h(1-5) by blast
qed

theorem update_image_output_witness:
  "update_image demo_env (Some demo_request) =
     (Response 200 (Edited ''data:image/png;base64,iVBORw0KGgo='' ''edited_photo.png''),
      [Opened ''uploads/photo.png'', Saved ''uploads/edited_photo.png'' demo_output])
   \<and> (\<exists>data p m s tb bs out.
         Some demo_request = Some data \<and>
         dict_get data ''image_path'' JNull = Inr (JStr p) \<and>
         dict_get data ''text_blocks'' JNull = Inr tb \<and> py_iter tb = Inr bs \<and>
         open_image demo_env p = Some (m, s) \<and>
         out = Convert ''RGB''
                 (AlphaComposite (rgba_base (Decoded p m s))
                    (Canvas s (concat (map (block_cmds demo_env) bs)))) \<and>
         mode (rgba_base (Decoded p m s)) = ''RGBA'' \<and> mode out = ''RGB'' \<and>
         [Opened ''uploads/photo.png'', Saved ''uploads/edited_photo.png'' demo_output] =
           [Opened p, Saved (''uploads/edited_'' @ secure_filename demo_env (basename p)) out] \<and>
         Edited ''data:image/png;base64,iVBORw0KGgo='' ''edited_photo.png'' =
           Edited (''data:image/png;base64,'' @ png_base64 demo_env out)
             (''edited_'' @ secure_filename demo_env (basename p)))"
proof -
  have e: "update_image demo_env (Some demo_request) =
     (Response 200 (Edited ''data:image/png;base64,iVBORw0KGgo='' ''edited_photo.png''),
      [Opened ''uploads/photo.png'', Saved ''uploads/edited_photo.png'' demo_output])"
    by code_simp
  from update_image_output[OF e] e show ?thesis by (rule_tac conjI)
qed

text \<open>
  C8. Rendering a block is not atomic. When a block's fields are read, its font is found
  and its background is drawn, and then its text colour does not parse, the block ends
  with that exception, and the covering rectangle it has drawn stays: it is all the block
  contributes, it is on the overlay of the composed image of the (successful) response,
  and the log counts the block as failed.
\<close>

theorem block_not_atomic:
  assumes ip: "dict_get data ''image_path'' JNull = Inr (JStr p)"
    and tb: "dict_get data ''text_blocks'' JNull = Inr (JList bs)"
    and ne: "p \<noteq> []" "bs \<noteq> []"
    and ex: "path_exists ev p"
    and op: "open_image ev p = Some (m, s)"
    and sv: "save_accepts ev (''uploads/'' @ output_name ev p)
               (compose (rgba_base (Decoded p m s)) (concat (map (block_cmds ev) bs)))"
    and mem: "block \<in> set bs"
    and rd: "read_block ev block = Inr a"
    and fn: "get_font ev (a_font_family a) (a_font_size a) (a_bold a) (a_italic a) = Inr fnt"
    and bg: "draw_background ev [] a = Inr [c]"
    and tc: "hex_to_rgb (a_text_color a) = Inl e"
  shows "block_cmds ev block = [c] \<and> block_error ev block = Some e
       \<and> (\<exists>fill. c = Rectangle (a_x a - 2) (a_y a - 2) (a_x a + a_w a + 2) (a_y a + a_h a + 2) fill)
       \<and> (\<exists>ov. update_image ev (Some data) =
                  (Response 200
                     (Edited (''data:image/png;base64,'' @
                              png_base64 ev (compose (rgba_base (Decoded p m s)) ov))
                        (output_name ev p)),
                   [Opened p,
                    Saved (''uploads/'' @ output_name ev p)
                      (compose (rgba_base (Decoded p m s)) ov)])
                \<and> c \<in> set ov)
       \<and> (\<exists>i. (i, Some e) \<in> set (snd (process_blocks ev 0 bs [] [])))"
proof -
  from block_half_drawn[OF rd fn bg tc]
  have pb: "block_cmds ev block = [c]" "block_error ev block = Some e"
    by (simp_all add: block_cmds_def block_error_def)
  from draw_background_cases[OF bg]
  have rect: "\<exists>fill. c = Rectangle (a_x a - 2) (a_y a - 2) (a_x a + a_w a + 2)
                            (a_y a + a_h a + 2) fill"
    by (auto simp: cover_def opaque_def)
  from mem pb(1) have "c \<in> set (concat (map (block_cmds ev) bs))" by force
  with update_image_success[OF ip tb ne ex op sv]
  have resp: "\<exists>ov. update_image ev (Some data) =
                  (Response 200
                     (Edited (''data:image/png;base64,'' @
                              png_base64 ev (compose (rgba_base (Decoded p m s)) ov))
                        (output_name ev p)),
                   [Opened p,
                    Saved (''uploads/'' @ output_name ev p)
                      (compose (rgba_base (Decoded p m s)) ov)])
                \<and> c \<in> set ov"
    by blast
  from mem obtain k where k: "k < length bs" "bs ! k = block" by (auto simp: in_set_conv_nth)
  then have "(1 + k, block) \<in> set (enumerate 1 bs)" by (simp add: in_set_enumerate_eq)
  with outcome_of_error[OF pb(2)] have "(1 + k, Some e) \<in>
               set (map (\<lambda>(i, b). (i, block_outcome ev b)) (enumerate 1 bs))"
    by force
  then have "(1 + k, Some e) \<in> set (snd (process_blocks ev 0 bs [] []))"
    by (simp add: process_blocks_eq)
  then have lg: "\<exists>i. (i, Some e) \<in> set (snd (process_blocks ev 0 bs [] []))" by blast
  from pb rect resp lg show ?thesis by blast
qed

theorem block_not_atomic_witness:
  "block_cmds demo_env demo_block_half = [Rectangle (- 1) 0 6 8 (0, 255, 0, 255)]
   \<and> block_error demo_env demo_block_half = Some ValueError
   \<and> hex_to_rgb (JStr ''#00FF00'') = Inr (0, 255, 0)
   \<and> hex_to_rgb (JStr ''red'') = Inl ValueError
   \<and> update_image demo_env (Some demo_request) =
       (Response 200 (Edited ''data:image/png;base64,iVBORw0KGgo='' ''edited_photo.png''),
        [Opened ''uploads/photo.png'', Saved ''uploads/edited_photo.png'' demo_output])
   \<and> (3, Some ValueError) \<in>
       set (snd (process_blocks demo_env 0 [demo_block_ok, demo_block_bad, demo_block_half] [] []))"
proof -
  let ?a = "\<lparr>a_x = 1, a_y = 2, a_w = 3, a_h = 4, a_text = ''Yo'', a_font_size = 20,
          a_font_family = JStr ''Arial'', a_bold = JBool False, a_italic = JBool False,
          a_underline = JBool False, a_text_color = JStr ''red'',
          a_bg_color = JStr ''#00FF00'', a_bg_transparent = JBool False\<rparr>"
  have ne: "''uploads/photo.png'' \<noteq> []" "[demo_block_ok, demo_block_bad, demo_block_half] \<noteq> []"
    by simp_all
  have sv: "save_accepts demo_env (''uploads/'' @ output_name demo_env ''uploads/photo.png'')
       (compose (rgba_base (Decoded ''uploads/photo.png'' ''RGB'' (100, 50)))
          (concat (map (block_cmds demo_env) [demo_block_ok, demo_block_bad, demo_block_half])))"
    by (simp add: demo_files demo_saves)
  have mem: "demo_block_half \<in> set [demo_block_ok, demo_block_bad, demo_block_half]" by simp
  have fn: "get_font demo_env (a_font_family ?a) (a_font_size ?a) (a_bold ?a) (a_italic ?a)
              = Inr DefaultFont"
    by (simp add: demo_font)
  have bg: "draw_background demo_env [] ?a = Inr [Rectangle (- 1) 0 6 8 (0, 255, 0, 255)]"
    by code_simp
  have tc: "hex_to_rgb (a_text_color ?a) = Inl ValueError" by code_simp
  have h1: "hex_to_rgb (JStr ''#00FF00'') = Inr (0, 255, 0)" by code_simp
  have h2: "hex_to_rgb (JStr ''red'') = Inl ValueError" by code_simp
  have e: "update_image demo_env (Some demo_request) =
     (Response 200 (Edited ''data:image/png;base64,iVBORw0KGgo='' ''edited_photo.png''),
      [Opened ''uploads/photo.png'', Saved ''uploads/edited_photo.png'' demo_output])"
    by code_simp
  have lg: "(3, Some ValueError) \<in>
       set (snd (process_blocks demo_env 0 [demo_block_ok, demo_block_bad, demo_block_half] [] []))"
    by (simp add: process_blocks_eq demo_outcomes enumerate_simps)
  from block_not_atomic
         [OF demo_request_fields ne demo_files(1) demo_files(2) sv mem demo_read_half fn bg tc]
  have "block_cmds demo_env demo_block_half = [Rectangle (- 1) 0 6 8 (0, 255, 0, 255)]
        \<and> block_error demo_env demo_block_half = Some ValueError"
    by simp
  with h1 h2 e lg show ?thesis by simp
qed

text \<open>
  C9. An \<open>update_image\<close> request whose body has both fields, with an empty \<open>text_blocks\<close>
  list or an empty \<open>image_path\<close> string, is answered with 400 and the message
  \<open>Missing required data\<close>, exactly as a body without the fields is: the check tests the
  truth of the values. Nothing is opened or written.
\<close>

theorem update_image_empty_values:
  assumes ip: "dict_get data ''image_path'' JNull = Inr ipv"
    and tb: "dict_get data ''text_blocks'' JNull = Inr tbs"
    and em: "ipv = JStr [] \<or> tbs = JList []"
  shows "update_image ev (Some data) = (Response 400 (ErrorMessage ''Missing required data''), [])
       \<and> update_image ev (Some data) = update_image ev (Some (JObj []))"
  using assms by (auto simp add: update_image_def and_then_def)

theorem update_image_empty_values_witness:
  "update_image demo_env
     (Some (JObj [(''image_path'', JStr ''uploads/photo.png''), (''text_blocks'', JList [])])) =
     (Response 400 (ErrorMessage ''Missing required data''), [])
   \<and> update_image demo_env
     (Some (JObj [(''image_path'', JStr []), (''text_blocks'', JList [demo_block_ok])])) =
     (Response 400 (ErrorMessage ''Missing required data''), [])"
proof -
  have a: "JStr ''uploads/photo.png'' = JStr [] \<or> JList [] = JList []" by simp
  have b: "JStr [] = JStr [] \<or> JList [demo_block_ok] = JList []" by simp
  have "update_image demo_env
     (Some (JObj [(''image_path'', JStr ''uploads/photo.png''), (''text_blocks'', JList [])])) =
     (Response 400 (ErrorMessage ''Missing required data''), [])"
    using update_image_empty_values[OF _ _ a, of _ demo_env] by simp
  moreover have "update_image demo_env
     (Some (JObj [(''image_path'', JStr []), (''text_blocks'', JList [demo_block_ok])])) =
     (Response 400 (ErrorMessage ''Missing required data''), [])"
    using update_image_empty_values[OF _ _ b, of _ demo_env] by simp
  ultimately show ?thesis by simp
qed

text \<open>
  C10. The download handler serves the path made of the upload folder and the sanitised
  file name, and answers 404 when that path does not exist. A sanitised name holds no
  slash, so the served path is \<open>uploads/\<close> followed by the name, a path of two
  components; with the sanitiser of the example environment (werkzeug's rules on ASCII
  names) this holds for every requested name, and no component is \<open>..\<close>.
\<close>

theorem download_served_path:
  "download_file ev f =
     (if path_exists ev (served_path ev f)
      then (if send_file_ok ev (served_path ev f)
            then Response 200 (Attachment (served_path ev f) (secure_filename ev f))
            else Response 500 (Raised LibraryError))
      else Response 404 (ErrorMessage ''File not found''))
   \<and> served_path ev f = path_join UPLOAD_FOLDER (secure_filename ev f)
   \<and> (CHR ''/'' \<notin> set (secure_filename ev f) \<longrightarrow>
        served_path ev f = ''uploads/'' @ secure_filename ev f \<and>
        components [] (served_path ev f) = [''uploads'', secure_filename ev f])
   \<and> (secure_filename ev = secure_filename_ascii \<longrightarrow>
        served_path ev f = ''uploads/'' @ secure_filename_ascii f \<and>
        components [] (served_path ev f) = [''uploads'', secure_filename_ascii f] \<and>
        ''..'' \<notin> set (components [] (served_path ev f)))"
proof -
  have A: "download_file ev f =
     (if path_exists ev (served_path ev f)
      then (if send_file_ok ev (served_path ev f)
            then Response 200 (Attachment (served_path ev f) (secure_filename ev f))
            else Response 500 (Raised LibraryError))
      else Response 404 (ErrorMessage ''File not found''))"
    by (rule download_file_eq)
  have B: "served_path ev f = path_join UPLOAD_FOLDER (secure_filename ev f)"
    by (simp add: served_path_def)
  have C: "CHR ''/'' \<notin> set (secure_filename ev f) \<longrightarrow>
        served_path ev f = ''uploads/'' @ secure_filename ev f \<and>
        components [] (served_path ev f) = [''uploads'', secure_filename ev f]"
    using served_no_slash[of ev f] by blast
  have D: "secure_filename ev = secure_filename_ascii \<longrightarrow>
        served_path ev f = ''uploads/'' @ secure_filename_ascii f \<and>
        components [] (served_path ev f) = [''uploads'', secure_filename_ascii f] \<and>
        ''..'' \<notin> set (components [] (served_path ev f))"
  proof
    assume s: "secure_filename ev = secure_filename_ascii"
    have "CHR ''/'' \<notin> set (secure_filename ev f)"
      by (simp add: s secure_filename_ascii_no_slash)
    note F = served_no_slash[OF this, unfolded s]
    have E: "served_path ev f = ''uploads/'' @ secure_filename_ascii f"
         "components [] (served_path ev f) = [''uploads'', secure_filename_ascii f]"
      by (rule F[THEN conjunct1], rule F[THEN conjunct2])
    have "''..'' \<notin> set [''uploads'', secure_filename_ascii f]"
      using secure_filename_ascii_not_dots[of f] by auto
    with E show "served_path ev f = ''uploads/'' @ secure_filename_ascii f \<and>
        components [] (served_path ev f) = [''uploads'', secure_filename_ascii f] \<and>
        ''..'' \<notin> set (components [] (served_path ev f))"
      by (simp only: simp_thms)
  qed
  show ?thesis by (rule conjI[OF A conjI[OF B conjI[OF C D]]])
qed

theorem download_served_path_witness:
  "download_file demo_env ''../../etc/passwd'' = Response 404 (ErrorMessage ''File not found'')
   \<and> served_path demo_env ''../../etc/passwd'' = ''uploads/etc_passwd''
   \<and> components [] (served_path demo_env ''../../etc/passwd'') = [''uploads'', ''etc_passwd'']
   \<and> download_file demo_env ''../photo.png'' =
       Response 200 (Attachment ''uploads/photo.png'' ''photo.png'')"
proof -
  have s: "secure_filename demo_env = secure_filename_ascii" by (simp add: demo_env_def)
  have v: "secure_filename_ascii ''../../etc/passwd'' = ''etc_passwd''"
          "secure_filename_ascii ''../photo.png'' = ''photo.png''"
    by code_simp+
  have x: "\<not> path_exists demo_env ''uploads/etc_passwd''"
          "path_exists demo_env ''uploads/photo.png''"
          "send_file_ok demo_env ''uploads/photo.png''"
    by code_simp+
  from download_served_path[of demo_env "''../../etc/passwd''"]
       download_served_path[of demo_env "''../photo.png''"]
  show ?thesis by (simp add: s v x path_join_def UPLOAD_FOLDER_def)
qed

end
